theory Spec2Isabelle
  imports Main "HOL-Library.Word"
begin

section \<open>LendingPlatform: the contract's data\<close>

text \<open>
  The Solidity contract \<open>LendingPlatform\<close> (pragma \<open>^0.8.0\<close>) is embedded as pure
  functions over a record of its storage. An \<open>address\<close> is a 160-bit word, a
  \<open>uint256\<close> a 256-bit word. A Solidity \<open>mapping\<close> is a total function whose value
  at a key never written is the zero value of the value type (\<open>0\<close>, \<open>False\<close>).
\<close>

type_synonym address = "160 word"
type_synonym uint256 = "256 word"

text \<open>\<open>struct Loan\<close>, field by field.\<close>

record Loan =
  loanId :: uint256
  borrower :: address
  principal :: uint256
  interestRate :: uint256
  tenure :: uint256
  collateralAmount :: uint256
  collateralToken :: address
  isRepaid :: bool

text \<open>The four events the contract declares; \<open>LoanRepaid\<close> is declared and never emitted.\<close>

datatype event =
    ScoreUpdated address uint256
  | LoanDisbursed uint256 address uint256 uint256 address uint256
  | LoanRepaid uint256 address uint256
  | CollateralAdded address

text \<open>
  Every way a call can revert. The first seven constructors are the seven \<open>require\<close>
  statements of the contract, in source order; \<open>reason\<close> gives the revert data each one
  carries. The pull transfer fails in two ways: the token returns \<open>false\<close> and the
  \<open>require\<close> of line 81 reverts, or the token itself reverts and the high-level call
  passes the token's revert data on unchanged. \<open>Panic\<close> is the revert that Solidity 0.8 raises from checked
  arithmetic, and \<open>NonPayable\<close> the revert of a function without \<open>payable\<close> that is
  sent native currency.
\<close>

datatype panic = ArithmeticOverflow | DivisionByZero

datatype transfer_failure = ReturnedFalse | TokenReverted string

datatype error =
    Unauthorized
  | InvalidScore
  | NotScored
  | CollateralMismatch
  | UnsupportedCollateral
  | UnexpectedNativeValue
  | TransferFailed transfer_failure
  | Panic panic
  | NonPayable

fun reason :: "error \<Rightarrow> string" where
  "reason Unauthorized = ''Caller is not the trusted Oracle/Backend.''"
| "reason InvalidScore = ''Score must be between 0 and 100.''"
| "reason NotScored = ''Risk score is missing or invalid.''"
| "reason CollateralMismatch = ''Incorrect ETH collateral sent.''"
| "reason UnsupportedCollateral = ''Token not supported.''"
| "reason UnexpectedNativeValue = ''Do not send ETH with ERC20 collateral.''"
| "reason (TransferFailed ReturnedFalse) = ''Token transfer failed. Check allowance.''"
| "reason (TransferFailed (TokenReverted d)) = d"
| "reason (Panic p) = []"
| "reason NonPayable = []"

text \<open>
  The state: the five state variables of the contract, then what the chain keeps for
  it: the log of emitted events, the native currency the contract holds, the
  contract's own address (\<open>address(this)\<close>), and the state \<open>'w\<close> of the token
  contracts it calls.
\<close>

record 'w state =
  loans :: "Loan list"
  trustedOracle :: address
  borrowerRiskScore :: "address \<Rightarrow> uint256"
  supportedCollateral :: "address \<Rightarrow> bool"
  nextLoanId :: uint256
  emitted :: "event list"
  ethHeld :: nat
  thisAddress :: address
  tokenWorld :: 'w

text \<open>\<open>msg.sender\<close> and \<open>msg.value\<close>.\<close>

record msg =
  msg_sender :: address
  msg_value :: uint256

text \<open>
  \<open>IERC20(token).transferFrom(from, to, amount)\<close> is a call into another contract,
  whose code is not part of this one. It is a parameter of the model: given the token
  called, the calling contract, the three arguments and the token state, it reverts
  with its revert data or returns a flag and the new token state. A token of this
  type does not call back into \<open>LendingPlatform\<close> while it runs; tokens that do are
  modelled further down.
\<close>

datatype 'w call_result = Reverted string | Returned bool 'w

type_synonym 'w transferFrom =
  "address \<Rightarrow> address \<Rightarrow> address \<Rightarrow> address \<Rightarrow> uint256 \<Rightarrow> 'w \<Rightarrow> 'w call_result"

section \<open>Checked arithmetic of Solidity 0.8\<close>

definition checked_add :: "uint256 \<Rightarrow> uint256 \<Rightarrow> error + uint256" where
  "checked_add a b =
     (if unat a + unat b < 2 ^ 256 then Inr (a + b) else Inl (Panic ArithmeticOverflow))"

definition checked_sub :: "uint256 \<Rightarrow> uint256 \<Rightarrow> error + uint256" where
  "checked_sub a b = (if b \<le> a then Inr (a - b) else Inl (Panic ArithmeticOverflow))"

definition checked_div :: "uint256 \<Rightarrow> uint256 \<Rightarrow> error + uint256" where
  "checked_div a b = (if b = 0 then Inl (Panic DivisionByZero) else Inr (a div b))"

section \<open>The operations\<close>

text \<open>\<open>constructor(address _oracle)\<close>, with the initialiser \<open>nextLoanId = 1\<close>.\<close>

definition constructor :: "address \<Rightarrow> address \<Rightarrow> 'w \<Rightarrow> 'w state" where
  "constructor self oracle' w =
     \<lparr> loans = [], trustedOracle = oracle', borrowerRiskScore = (\<lambda>_. 0),
       supportedCollateral = (\<lambda>_. False), nextLoanId = 1, emitted = [], ethHeld = 0,
       thisAddress = self, tokenWorld = w \<rparr>"

text \<open>
  A function that is not \<open>payable\<close> starts with a check the compiler adds: called with
  native currency it reverts with empty data, before its modifiers and its body run.
\<close>

definition nonPayable :: "msg \<Rightarrow> error + 'a \<Rightarrow> error + 'a" where
  "nonPayable m body = (if msg_value m = 0 then body else Inl NonPayable)"

text \<open>\<open>modifier onlyOracle\<close>: the \<open>require\<close>, then the body.\<close>

definition onlyOracle ::
  "msg \<Rightarrow> 'w state \<Rightarrow> ('w state \<Rightarrow> error + 'w state) \<Rightarrow> error + 'w state" where
  "onlyOracle m st body =
     (if msg_sender m = trustedOracle st then body st else Inl Unauthorized)"

definition setRiskScore :: "msg \<Rightarrow> address \<Rightarrow> uint256 \<Rightarrow> 'w state \<Rightarrow> error + 'w state" where
  "setRiskScore m borrower' score' st =
     nonPayable m (onlyOracle m st (\<lambda>st.
       if score' \<le> 100
       then Inr (st\<lparr> borrowerRiskScore := (borrowerRiskScore st)(borrower' := score'),
                     emitted := emitted st @ [ScoreUpdated borrower' score'] \<rparr>)
       else Inl InvalidScore))"

definition addCollateralToken :: "msg \<Rightarrow> address \<Rightarrow> 'w state \<Rightarrow> error + 'w state" where
  "addCollateralToken m token' st =
     nonPayable m (onlyOracle m st (\<lambda>st.
       Inr (st\<lparr> supportedCollateral := (supportedCollateral st)(token' := True),
                 emitted := emitted st @ [CollateralAdded token'] \<rparr>)))"

text \<open>
  \<open>applyForLoan\<close>, lines 64 to 82: the read of the caller's score, the \<open>require\<close> on it
  and the collateral handling. The result is the score read and the token state after
  the pull transfer (unchanged for native collateral).
\<close>

definition applyForLoan_checks ::
  "'w transferFrom \<Rightarrow> msg \<Rightarrow> uint256 \<Rightarrow> address \<Rightarrow> 'w state \<Rightarrow> error + (uint256 \<times> 'w)" where
  "applyForLoan_checks tf m collateralAmount' collateralToken' st =
     (let riskScore = borrowerRiskScore st (msg_sender m) in
      if \<not> riskScore > 0 then Inl NotScored
      else if collateralToken' = 0 then
        (if msg_value m = collateralAmount' then Inr (riskScore, tokenWorld st)
         else Inl CollateralMismatch)
      else if \<not> supportedCollateral st collateralToken' then Inl UnsupportedCollateral
      else if \<not> msg_value m = 0 then Inl UnexpectedNativeValue
      else
        (case tf collateralToken' (thisAddress st) (msg_sender m) (thisAddress st)
                 collateralAmount' (tokenWorld st) of
           Reverted d \<Rightarrow> Inl (TransferFailed (TokenReverted d))
         | Returned success w' \<Rightarrow>
             if success then Inr (riskScore, w') else Inl (TransferFailed ReturnedFalse)))"

text \<open>
  \<open>applyForLoan\<close>, lines 85 to 105: the rate, the \<open>push\<close>, the increment and the event.
  The function is \<open>payable\<close>: when it returns, the contract holds \<open>msg.value\<close> more.
\<close>

definition applyForLoan_record ::
  "msg \<Rightarrow> uint256 \<Rightarrow> uint256 \<Rightarrow> uint256 \<Rightarrow> address \<Rightarrow> uint256 \<Rightarrow> 'w \<Rightarrow> 'w state
     \<Rightarrow> error + 'w state" where
  "applyForLoan_record m principal' tenure' collateralAmount' collateralToken' riskScore w' st =
     (case checked_div 100 riskScore of
        Inl e \<Rightarrow> Inl e
      | Inr finalRate \<Rightarrow>
          let st1 = st\<lparr> loans := loans st @
                     [\<lparr> loanId = nextLoanId st, borrower = msg_sender m,
                        principal = principal', interestRate = finalRate, tenure = tenure',
                        collateralAmount = collateralAmount',
                        collateralToken = collateralToken', isRepaid = False \<rparr>] \<rparr>
          in (case checked_add (nextLoanId st1) 1 of
                Inl e \<Rightarrow> Inl e
              | Inr n \<Rightarrow>
                  let st2 = st1\<lparr> nextLoanId := n \<rparr>
                  in (case checked_sub (nextLoanId st2) 1 of
                        Inl e \<Rightarrow> Inl e
                      | Inr lastId \<Rightarrow>
                          Inr (st2\<lparr> emitted := emitted st2 @
                                      [LoanDisbursed lastId (msg_sender m) principal' finalRate
                                         collateralToken' collateralAmount'],
                                    ethHeld := ethHeld st2 + unat (msg_value m),
                                    tokenWorld := w' \<rparr>))))"

definition applyForLoan ::
  "'w transferFrom \<Rightarrow> msg \<Rightarrow> uint256 \<Rightarrow> uint256 \<Rightarrow> uint256 \<Rightarrow> address \<Rightarrow> 'w state
     \<Rightarrow> error + 'w state" where
  "applyForLoan tf m principal' tenure' collateralAmount' collateralToken' st =
     (case applyForLoan_checks tf m collateralAmount' collateralToken' st of
        Inl e \<Rightarrow> Inl e
      | Inr (riskScore, w') \<Rightarrow>
          applyForLoan_record m principal' tenure' collateralAmount' collateralToken'
            riskScore w' st)"

text \<open>The getter that \<open>public\<close> generates for \<open>borrowerRiskScore\<close>: one \<open>uint256\<close>.\<close>

definition getScore :: "'w state \<Rightarrow> address \<Rightarrow> uint256" where
  "getScore st a = borrowerRiskScore st a"

section \<open>Transactions\<close>

text \<open>
  A transaction is a message and a call of one of the three external functions. A
  transaction that reverts leaves the state as it was.
\<close>

datatype call =
    SetRiskScore address uint256
  | AddCollateralToken address
  | ApplyForLoan uint256 uint256 uint256 address

fun dispatch :: "'w transferFrom \<Rightarrow> msg \<Rightarrow> call \<Rightarrow> 'w state \<Rightarrow> error + 'w state" where
  "dispatch tf m (SetRiskScore b s) st = setRiskScore m b s st"
| "dispatch tf m (AddCollateralToken t) st = addCollateralToken m t st"
| "dispatch tf m (ApplyForLoan p t c k) st = applyForLoan tf m p t c k st"

definition transact :: "'w transferFrom \<Rightarrow> 'w state \<Rightarrow> msg \<times> call \<Rightarrow> 'w state" where
  "transact tf st tx =
     (case dispatch tf (fst tx) (snd tx) st of Inl e \<Rightarrow> st | Inr st' \<Rightarrow> st')"

definition run :: "'w transferFrom \<Rightarrow> 'w state \<Rightarrow> (msg \<times> call) list \<Rightarrow> 'w state" where
  "run tf st txs = foldl (transact tf) st txs"

text \<open>
  Two token environments for concrete runs. On \<open>noTokens\<close> no token contract is
  deployed, so every token call reverts with empty data; on \<open>refusingToken\<close> every token refuses the
  transfer by returning \<open>false\<close>.
\<close>

definition noTokens :: "'w transferFrom" where
  "noTokens tok caller from to amount w = Reverted []"

definition refusingToken :: "'w transferFrom" where
  "refusingToken tok caller from to amount w = Returned False w"

text \<open>Whether a call writes the score of borrower \<open>b\<close>, if it succeeds.\<close>

fun targets :: "address \<Rightarrow> call \<Rightarrow> bool" where
  "targets b (SetRiskScore b' s) = (b' = b)"
| "targets b (AddCollateralToken t) = False"
| "targets b (ApplyForLoan p t c k) = False"

section \<open>Tokens that call back\<close>

text \<open>
  The call of line 80 hands control to the token contract before the loan is pushed
  (line 90) and the counter incremented (line 101), and the contract has no guard
  against re-entry. While it runs, a token may therefore call the contract's external
  functions itself, directly or through contracts it calls. Such a token is a script:
  it finishes (reverting with its revert data, or returning a flag and its new state),
  or it makes a call into \<open>LendingPlatform\<close> with a message of its choosing and goes
  on from the state the contract is left in (the state as it was, when the call
  reverted). A token chooses its script from the arguments of \<open>transferFrom\<close> and the
  contract's state, all of which is public.
\<close>

datatype 'w script =
    Finish "'w call_result"
  | CallBack msg call "'w state \<Rightarrow> 'w script"

type_synonym 'w token =
  "address \<Rightarrow> address \<Rightarrow> address \<Rightarrow> address \<Rightarrow> uint256 \<Rightarrow> 'w state \<Rightarrow> 'w script"

text \<open>
  A handler runs one call made by a script: \<open>None\<close> when the call reverts, the new
  state otherwise. \<open>runScript\<close> runs a script against a handler; its result is the
  token call's result, now with the whole state, since the calls made have changed it.
\<close>

type_synonym 'w handler = "msg \<Rightarrow> call \<Rightarrow> 'w state \<Rightarrow> 'w state option"

primrec runScript :: "'w handler \<Rightarrow> 'w script \<Rightarrow> 'w state \<Rightarrow> ('w state) call_result" where
  "runScript h (Finish r) st =
     (case r of Reverted d \<Rightarrow> Reverted d
      | Returned success w' \<Rightarrow> Returned success (st\<lparr> tokenWorld := w' \<rparr>))"
| "runScript h (CallBack m c k) st =
     (case h m c st of
        None \<Rightarrow> runScript h (k st) st
      | Some st' \<Rightarrow> runScript h (k st') st')"

text \<open>
  \<open>applyForLoan\<close> against such a token. Lines 64 to 82 are as in \<open>applyForLoan_checks\<close>,
  with the token's script run at line 80; lines 85 to 105 are \<open>applyForLoan_record\<close>,
  now from the state the token call has left (at line 80 \<open>msg.value\<close> is \<open>0\<close>, by
  line 76, so the time at which it is credited makes no difference to the script).
\<close>

definition applyForLoan_checks_cb ::
  "'w handler \<Rightarrow> 'w token \<Rightarrow> msg \<Rightarrow> uint256 \<Rightarrow> address \<Rightarrow> 'w state
     \<Rightarrow> error + (uint256 \<times> 'w state)" where
  "applyForLoan_checks_cb h tok m collateralAmount' collateralToken' st =
     (let riskScore = borrowerRiskScore st (msg_sender m) in
      if \<not> riskScore > 0 then Inl NotScored
      else if collateralToken' = 0 then
        (if msg_value m = collateralAmount' then Inr (riskScore, st)
         else Inl CollateralMismatch)
      else if \<not> supportedCollateral st collateralToken' then Inl UnsupportedCollateral
      else if \<not> msg_value m = 0 then Inl UnexpectedNativeValue
      else
        (case runScript h
                (tok collateralToken' (thisAddress st) (msg_sender m) (thisAddress st)
                   collateralAmount' st) st of
           Reverted d \<Rightarrow> Inl (TransferFailed (TokenReverted d))
         | Returned success st1 \<Rightarrow>
             if success then Inr (riskScore, st1) else Inl (TransferFailed ReturnedFalse)))"

definition applyForLoan_cb ::
  "'w handler \<Rightarrow> 'w token \<Rightarrow> msg \<Rightarrow> uint256 \<Rightarrow> uint256 \<Rightarrow> uint256 \<Rightarrow> address \<Rightarrow> 'w state
     \<Rightarrow> error + 'w state" where
  "applyForLoan_cb h tok m principal' tenure' collateralAmount' collateralToken' st =
     (case applyForLoan_checks_cb h tok m collateralAmount' collateralToken' st of
        Inl e \<Rightarrow> Inl e
      | Inr (riskScore, st1) \<Rightarrow>
          applyForLoan_record m principal' tenure' collateralAmount' collateralToken'
            riskScore (tokenWorld st1) st1)"

fun dispatch_cb :: "'w handler \<Rightarrow> 'w token \<Rightarrow> msg \<Rightarrow> call \<Rightarrow> 'w state \<Rightarrow> error + 'w state" where
  "dispatch_cb h tok m (SetRiskScore b s) st = setRiskScore m b s st"
| "dispatch_cb h tok m (AddCollateralToken t) st = addCollateralToken m t st"
| "dispatch_cb h tok m (ApplyForLoan p t c k) st = applyForLoan_cb h tok m p t c k st"

text \<open>
  The calls a script makes are calls of the contract itself, one level deeper on the
  call stack. The stack is bounded (the EVM allows 1024 frames): with \<open>d\<close> levels left
  a call runs with \<open>d - 1\<close> levels left for the calls made inside it, and with none
  left it fails.
\<close>

primrec callback :: "nat \<Rightarrow> 'w token \<Rightarrow> 'w handler" where
  "callback 0 tok = (\<lambda>m c st. None)"
| "callback (Suc d) tok =
     (\<lambda>m c st. case dispatch_cb (callback d tok) tok m c st of
                 Inl e \<Rightarrow> None | Inr st' \<Rightarrow> Some st')"

definition transact_cb :: "nat \<Rightarrow> 'w token \<Rightarrow> 'w state \<Rightarrow> msg \<times> call \<Rightarrow> 'w state" where
  "transact_cb d tok st tx =
     (case dispatch_cb (callback d tok) tok (fst tx) (snd tx) st of
        Inl e \<Rightarrow> st | Inr st' \<Rightarrow> st')"

definition run_cb :: "nat \<Rightarrow> 'w token \<Rightarrow> 'w state \<Rightarrow> (msg \<times> call) list \<Rightarrow> 'w state" where
  "run_cb d tok st txs = foldl (transact_cb d tok) st txs"

text \<open>
  A token of the first kind, which finishes without a call, as a script; and a token
  that re-enters: in \<open>transferFrom\<close> it has the account it pulls from call
  \<open>applyForLoan(0, 0, 0, address(0))\<close> (as a token with a hook on the sender does),
  then reports success.
\<close>

definition plainToken :: "'w transferFrom \<Rightarrow> 'w token" where
  "plainToken tf tok caller from to amount st =
     Finish (tf tok caller from to amount (tokenWorld st))"

definition reenteringToken :: "'w token" where
  "reenteringToken tok caller from to amount st =
     CallBack \<lparr> msg_sender = from, msg_value = 0 \<rparr> (ApplyForLoan 0 0 0 0)
       (\<lambda>st'. Finish (Returned True (tokenWorld st')))"

text \<open>
  Two properties of states used in the proofs about the ledger: the ids of the loans
  are \<open>1, 2, 3, \<dots>\<close> and \<open>nextLoanId\<close> is the next one; and a later state keeps the
  loans of an earlier one as the front of its ledger, and keeps the first property.
\<close>

definition ledger_ok :: "'w state \<Rightarrow> bool" where
  "ledger_ok st =
     (map (\<lambda>l. unat (loanId l)) (loans st) = [1..<Suc (length (loans st))] \<and>
      unat (nextLoanId st) = Suc (length (loans st)))"

definition ledger_extends :: "'w state \<Rightarrow> 'w state \<Rightarrow> bool" where
  "ledger_extends st st' =
     (take (length (loans st)) (loans st') = loans st \<and>
      length (loans st) \<le> length (loans st') \<and>
      (ledger_ok st \<longrightarrow> ledger_ok st'))"

section \<open>What a call of applyForLoan does\<close>

lemma applyForLoan_checks_score:
  "applyForLoan_checks tf m ca ct st = Inr (rs, w') \<Longrightarrow>
     rs = borrowerRiskScore st (msg_sender m) \<and> rs \<noteq> 0"
  by (auto simp: applyForLoan_checks_def Let_def word_gt_0 split: if_splits call_result.splits)

lemma applyForLoan_record_Inr:
  assumes "applyForLoan_record m p t ca ct rs w' st = Inr st'"
  shows "rs \<noteq> 0 \<and> unat (nextLoanId st) + 1 < 2 ^ 256 \<and>
     st' = st\<lparr> loans := loans st @
              [\<lparr> loanId = nextLoanId st, borrower = msg_sender m, principal = p,
                 interestRate = 100 div rs, tenure = t, collateralAmount = ca,
                 collateralToken = ct, isRepaid = False \<rparr>],
             nextLoanId := nextLoanId st + 1,
             emitted := emitted st @
              [LoanDisbursed (nextLoanId st) (msg_sender m) p (100 div rs) ct ca],
             ethHeld := ethHeld st + unat (msg_value m),
             tokenWorld := w' \<rparr>"
  using assms
  by (auto simp: applyForLoan_record_def checked_div_def checked_add_def checked_sub_def Let_def
       split: if_splits sum.splits)

lemma applyForLoan_record_succeeds:
  assumes "rs \<noteq> 0" and "unat (nextLoanId st) + 1 < 2 ^ 256"
  shows "applyForLoan_record m p t ca ct rs w' st =
     Inr (st\<lparr> loans := loans st @
              [\<lparr> loanId = nextLoanId st, borrower = msg_sender m, principal = p,
                 interestRate = 100 div rs, tenure = t, collateralAmount = ca,
                 collateralToken = ct, isRepaid = False \<rparr>],
             nextLoanId := nextLoanId st + 1,
             emitted := emitted st @
              [LoanDisbursed (nextLoanId st) (msg_sender m) p (100 div rs) ct ca],
             ethHeld := ethHeld st + unat (msg_value m),
             tokenWorld := w' \<rparr>)"
proof -
  have a: "checked_add (nextLoanId st) 1 = Inr (nextLoanId st + 1)"
    using assms(2) by (simp add: checked_add_def)
  have "unat (nextLoanId st + 1) = unat (nextLoanId st) + 1"
    using assms(2) by (simp add: unat_word_ariths)
  then have "1 \<le> nextLoanId st + 1"
    by (simp add: word_le_nat_alt)
  then have s: "checked_sub (nextLoanId st + 1) 1 = Inr (nextLoanId st)"
    by (simp add: checked_sub_def)
  show ?thesis
    using assms(1) by (simp add: applyForLoan_record_def checked_div_def a s Let_def)
qed

lemma applyForLoan_Inr:
  assumes "applyForLoan tf m p t ca ct st = Inr st'"
  shows "\<exists>w'. applyForLoan_checks tf m ca ct st = Inr (borrowerRiskScore st (msg_sender m), w') \<and>
     borrowerRiskScore st (msg_sender m) \<noteq> 0 \<and> unat (nextLoanId st) + 1 < 2 ^ 256 \<and>
     st' = st\<lparr> loans := loans st @
              [\<lparr> loanId = nextLoanId st, borrower = msg_sender m, principal = p,
                 interestRate = 100 div borrowerRiskScore st (msg_sender m), tenure = t,
                 collateralAmount = ca, collateralToken = ct, isRepaid = False \<rparr>],
             nextLoanId := nextLoanId st + 1,
             emitted := emitted st @
              [LoanDisbursed (nextLoanId st) (msg_sender m) p
                 (100 div borrowerRiskScore st (msg_sender m)) ct ca],
             ethHeld := ethHeld st + unat (msg_value m),
             tokenWorld := w' \<rparr>"
proof -
  from assms obtain rs w' where
    c: "applyForLoan_checks tf m ca ct st = Inr (rs, w')" and
    r: "applyForLoan_record m p t ca ct rs w' st = Inr st'"
    by (auto simp: applyForLoan_def split: sum.splits)
  from applyForLoan_checks_score [OF c] have rs: "rs = borrowerRiskScore st (msg_sender m)"
    by simp
  from applyForLoan_record_Inr [OF r] c rs show ?thesis
    by blast
qed

section \<open>The interest rate\<close>

text \<open>
  C1. When the caller's stored risk score \<open>s\<close> satisfies \<open>1 \<le> s \<le> 100\<close>, a successful
  \<open>applyForLoan\<close> appends one loan to \<open>loans\<close>, and the \<open>interestRate\<close> of that loan is
  \<open>100 div s\<close> (integer division): \<open>4\<close> for score 25, \<open>1\<close> for score 100, \<open>100\<close> for
  score 1.
\<close>

theorem applyForLoan_interestRate:
  assumes "applyForLoan tf m p t ca ct st = Inr st'"
    and "1 \<le> unat (borrowerRiskScore st (msg_sender m))"
    and "unat (borrowerRiskScore st (msg_sender m)) \<le> 100"
  shows "loans st' = loans st @ [last (loans st')] \<and>
    unat (interestRate (last (loans st'))) = 100 div unat (borrowerRiskScore st (msg_sender m)) \<and>
    (borrowerRiskScore st (msg_sender m) = 25 \<longrightarrow> interestRate (last (loans st')) = 4) \<and>
    (borrowerRiskScore st (msg_sender m) = 100 \<longrightarrow> interestRate (last (loans st')) = 1) \<and>
    (borrowerRiskScore st (msg_sender m) = 1 \<longrightarrow> interestRate (last (loans st')) = 100)"
proof -
  from applyForLoan_Inr [OF assms(1)] obtain w' where
    st': "st' = st\<lparr> loans := loans st @
              [\<lparr> loanId = nextLoanId st, borrower = msg_sender m, principal = p,
                 interestRate = 100 div borrowerRiskScore st (msg_sender m), tenure = t,
                 collateralAmount = ca, collateralToken = ct, isRepaid = False \<rparr>],
             nextLoanId := nextLoanId st + 1,
             emitted := emitted st @
              [LoanDisbursed (nextLoanId st) (msg_sender m) p
                 (100 div borrowerRiskScore st (msg_sender m)) ct ca],
             ethHeld := ethHeld st + unat (msg_value m),
             tokenWorld := w' \<rparr>"
    by blast
  have l: "last (loans st') = \<lparr> loanId = nextLoanId st, borrower = msg_sender m, principal = p,
                 interestRate = 100 div borrowerRiskScore st (msg_sender m), tenure = t,
                 collateralAmount = ca, collateralToken = ct, isRepaid = False \<rparr>"
    by (simp add: st')
  have "loans st' = loans st @ [last (loans st')]"
    by (simp add: st')
  moreover have "unat (interestRate (last (loans st'))) =
      100 div unat (borrowerRiskScore st (msg_sender m))"
    by (simp add: l unat_div)
  moreover have "borrowerRiskScore st (msg_sender m) = 25 \<longrightarrow> interestRate (last (loans st')) = 4"
    by (simp add: l)
  moreover have "borrowerRiskScore st (msg_sender m) = 100 \<longrightarrow> interestRate (last (loans st')) = 1"
    by (simp add: l)
  moreover have "borrowerRiskScore st (msg_sender m) = 1 \<longrightarrow> interestRate (last (loans st')) = 100"
    by (simp add: l)
  ultimately show ?thesis by blast
qed

theorem applyForLoan_interestRate_witness:
  "applyForLoan noTokens \<lparr> msg_sender = 2, msg_value = 5 \<rparr> 10 12 5 0
     \<lparr> loans = [], trustedOracle = 1, borrowerRiskScore = (\<lambda>_. 0)(2 := 25),
       supportedCollateral = (\<lambda>_. False), nextLoanId = 1, emitted = [ScoreUpdated 2 25],
       ethHeld = 0, thisAddress = 9, tokenWorld = () \<rparr>
   = Inr \<lparr> loans = [\<lparr> loanId = 1, borrower = 2, principal = 10, interestRate = 4, tenure = 12,
                      collateralAmount = 5, collateralToken = 0, isRepaid = False \<rparr>],
           trustedOracle = 1, borrowerRiskScore = (\<lambda>_. 0)(2 := 25),
           supportedCollateral = (\<lambda>_. False), nextLoanId = 2,
           emitted = [ScoreUpdated 2 25, LoanDisbursed 1 2 10 4 0 5],
           ethHeld = 5, thisAddress = 9, tokenWorld = () \<rparr>
   \<and> unat (interestRate \<lparr> loanId = 1, borrower = 2, principal = 10, interestRate = 4, tenure = 12,
                      collateralAmount = 5, collateralToken = 0, isRepaid = False \<rparr>) = 100 div 25"
proof -
  let ?st = "\<lparr> loans = [], trustedOracle = 1, borrowerRiskScore = (\<lambda>_. 0)(2 := 25),
       supportedCollateral = (\<lambda>_. False), nextLoanId = 1, emitted = [ScoreUpdated 2 25],
       ethHeld = 0, thisAddress = 9, tokenWorld = () \<rparr>"
  let ?m = "\<lparr> msg_sender = 2, msg_value = 5 \<rparr>"
  let ?st' = "\<lparr> loans = [\<lparr> loanId = 1, borrower = 2, principal = 10, interestRate = 4, tenure = 12,
                      collateralAmount = 5, collateralToken = 0, isRepaid = False \<rparr>],
           trustedOracle = 1, borrowerRiskScore = (\<lambda>_. 0)(2 := 25),
           supportedCollateral = (\<lambda>_. False), nextLoanId = 2,
           emitted = [ScoreUpdated 2 25, LoanDisbursed 1 2 10 4 0 5],
           ethHeld = 5, thisAddress = 9, tokenWorld = () \<rparr>"
  have h: "applyForLoan noTokens ?m 10 12 5 0 ?st = Inr ?st'"
    by (simp add: applyForLoan_def applyForLoan_checks_def applyForLoan_record_def
          checked_div_def checked_add_def checked_sub_def Let_def)
  have s1: "1 \<le> unat (borrowerRiskScore ?st (msg_sender ?m))" by simp
  have s2: "unat (borrowerRiskScore ?st (msg_sender ?m)) \<le> 100" by simp
  from applyForLoan_interestRate [OF h s1 s2] h show ?thesis by simp
qed

section \<open>Transactions and reverts\<close>

lemma transact_Inl: "dispatch tf m c st = Inl e \<Longrightarrow> transact tf st (m, c) = st"
  by (simp add: transact_def)

lemma transact_Inr: "dispatch tf m c st = Inr st' \<Longrightarrow> transact tf st (m, c) = st'"
  by (simp add: transact_def)

lemma run_Nil: "run tf st [] = st"
  by (simp add: run_def)

lemma run_Cons: "run tf st (tx # txs) = run tf (transact tf st tx) txs"
  by (simp add: run_def)

lemma run_snoc: "run tf st (txs @ [tx]) = transact tf (run tf st txs) tx"
  by (simp add: run_def)

lemma setRiskScore_Inr:
  "setRiskScore m b s st = Inr st' \<Longrightarrow>
     msg_value m = 0 \<and> msg_sender m = trustedOracle st \<and> s \<le> 100 \<and>
     st' = st\<lparr> borrowerRiskScore := (borrowerRiskScore st)(b := s),
               emitted := emitted st @ [ScoreUpdated b s] \<rparr>"
  by (auto simp: setRiskScore_def nonPayable_def onlyOracle_def split: if_splits)

lemma addCollateralToken_Inr:
  "addCollateralToken m t st = Inr st' \<Longrightarrow>
     msg_value m = 0 \<and> msg_sender m = trustedOracle st \<and>
     st' = st\<lparr> supportedCollateral := (supportedCollateral st)(t := True),
               emitted := emitted st @ [CollateralAdded t] \<rparr>"
  by (auto simp: addCollateralToken_def nonPayable_def onlyOracle_def split: if_splits)

lemma dispatch_score:
  assumes "dispatch tf m c st = Inr st'" and "\<not> targets b c"
  shows "borrowerRiskScore st' b = borrowerRiskScore st b"
proof (cases c)
  case (SetRiskScore b' s)
  with assms(1) have "setRiskScore m b' s st = Inr st'" by (simp split: if_splits)
  from setRiskScore_Inr [OF this] assms(2) SetRiskScore show ?thesis by simp
next
  case (AddCollateralToken k)
  with assms(1) have "addCollateralToken m k st = Inr st'" by (simp split: if_splits)
  from addCollateralToken_Inr [OF this] show ?thesis by simp
next
  case (ApplyForLoan p d ca ct)
  with assms(1) have "applyForLoan tf m p d ca ct st = Inr st'" by simp
  from applyForLoan_Inr [OF this] show ?thesis by auto
qed

lemma transact_score:
  "\<not> targets b (snd tx) \<Longrightarrow>
     borrowerRiskScore (transact tf st tx) b = borrowerRiskScore st b"
  by (cases "dispatch tf (fst tx) (snd tx) st") (simp_all add: transact_def dispatch_score)

lemma run_score:
  "\<forall>tx\<in>set txs. \<not> targets b (snd tx) \<Longrightarrow>
     borrowerRiskScore (run tf st txs) b = borrowerRiskScore st b"
  by (induction txs arbitrary: st) (simp_all add: run_Nil run_Cons transact_score)

lemma constructor_score: "borrowerRiskScore (constructor self orc w) b = 0"
  by (simp add: constructor_def)

lemma applyForLoan_score_zero:
  "borrowerRiskScore st (msg_sender m) = 0 \<Longrightarrow> applyForLoan tf m p t ca ct st = Inl NotScored"
  by (simp add: applyForLoan_def applyForLoan_checks_def)

section \<open>Borrowers without a positive score\<close>

text \<open>
  C2. A borrower whose stored score is \<open>0\<close>, because a \<open>0\<close> was written or because no
  transaction since construction wrote a score for them, cannot open a loan:
  \<open>applyForLoan\<close> reverts with \<open>NotScored\<close>, and the transaction leaves the whole
  state as it was, so no loan is created, no native currency or token moves, and
  \<open>nextLoanId\<close> and \<open>loans\<close> are unchanged.
\<close>

theorem applyForLoan_not_scored:
  assumes "borrowerRiskScore st (msg_sender m) = 0 \<or>
     (st = run tf (constructor self orc w) txs \<and>
      (\<forall>tx\<in>set txs. \<not> targets (msg_sender m) (snd tx)))"
  shows "applyForLoan tf m p t ca ct st = Inl NotScored \<and>
     transact tf st (m, ApplyForLoan p t ca ct) = st"
proof -
  from assms have "borrowerRiskScore st (msg_sender m) = 0"
    by (auto simp: run_score constructor_score)
  then have "applyForLoan tf m p t ca ct st = Inl NotScored"
    by (rule applyForLoan_score_zero)
  then show ?thesis
    by (simp add: transact_def)
qed

theorem applyForLoan_not_scored_witness:
  "applyForLoan noTokens \<lparr> msg_sender = 3, msg_value = 5 \<rparr> 10 12 5 0
     (run noTokens (constructor 9 1 ())
        [(\<lparr> msg_sender = 1, msg_value = 0 \<rparr>, SetRiskScore 2 50),
         (\<lparr> msg_sender = 1, msg_value = 0 \<rparr>, SetRiskScore 3 0)])
     = Inl NotScored
   \<and> borrowerRiskScore
       (run noTokens (constructor 9 1 ())
        [(\<lparr> msg_sender = 1, msg_value = 0 \<rparr>, SetRiskScore 2 50),
         (\<lparr> msg_sender = 1, msg_value = 0 \<rparr>, SetRiskScore 3 0)]) 2 = 50
   \<and> applyForLoan noTokens \<lparr> msg_sender = 4, msg_value = 5 \<rparr> 10 12 5 0
     (run noTokens (constructor 9 1 ())
        [(\<lparr> msg_sender = 1, msg_value = 0 \<rparr>, SetRiskScore 2 50),
         (\<lparr> msg_sender = 1, msg_value = 0 \<rparr>, SetRiskScore 3 0)])
     = Inl NotScored"
proof -
  let ?tf = "noTokens :: unit transferFrom"
  let ?txs = "[(\<lparr> msg_sender = 1, msg_value = 0 \<rparr>, SetRiskScore 2 50),
         (\<lparr> msg_sender = 1, msg_value = 0 \<rparr>, SetRiskScore 3 0)]"
  let ?st = "run ?tf (constructor 9 1 ()) ?txs"
  have st: "?st = \<lparr> loans = [], trustedOracle = 1,
       borrowerRiskScore = (\<lambda>_. 0)(2 := 50, 3 := 0),
       supportedCollateral = (\<lambda>_. False), nextLoanId = 1,
       emitted = [ScoreUpdated 2 50, ScoreUpdated 3 0],
       ethHeld = 0, thisAddress = 9, tokenWorld = () \<rparr>"
    by (simp add: run_def transact_def setRiskScore_def nonPayable_def onlyOracle_def constructor_def)
  have written0: "borrowerRiskScore ?st (msg_sender \<lparr> msg_sender = 3, msg_value = 5 \<rparr>) = 0"
    by (simp add: st)
  have never: "?st = run ?tf (constructor 9 1 ()) ?txs \<and>
      (\<forall>tx\<in>set ?txs. \<not> targets (msg_sender \<lparr> msg_sender = 4, msg_value = 5 \<rparr>) (snd tx))"
    by simp
  have a: "applyForLoan ?tf \<lparr> msg_sender = 3, msg_value = 5 \<rparr> 10 12 5 0 ?st = Inl NotScored"
    using applyForLoan_not_scored [OF disjI1, OF written0] by blast
  have b: "applyForLoan ?tf \<lparr> msg_sender = 4, msg_value = 5 \<rparr> 10 12 5 0 ?st = Inl NotScored"
    using applyForLoan_not_scored [OF disjI2, OF never] by blast
  have c: "borrowerRiskScore ?st 2 = 50" by (simp add: st)
  from a b c show ?thesis by blast
qed

section \<open>Calls reserved to the oracle\<close>

lemma dispatch_trustedOracle:
  assumes "dispatch tf m c st = Inr st'"
  shows "trustedOracle st' = trustedOracle st"
proof (cases c)
  case (SetRiskScore b s)
  with assms have "setRiskScore m b s st = Inr st'" by (simp split: if_splits)
  from setRiskScore_Inr [OF this] show ?thesis by simp
next
  case (AddCollateralToken k)
  with assms have "addCollateralToken m k st = Inr st'" by (simp split: if_splits)
  from addCollateralToken_Inr [OF this] show ?thesis by simp
next
  case (ApplyForLoan p d ca ct)
  with assms have "applyForLoan tf m p d ca ct st = Inr st'" by simp
  from applyForLoan_Inr [OF this] show ?thesis by auto
qed

lemma transact_trustedOracle: "trustedOracle (transact tf st tx) = trustedOracle st"
  by (cases "dispatch tf (fst tx) (snd tx) st") (simp_all add: transact_def dispatch_trustedOracle)

lemma run_trustedOracle: "trustedOracle (run tf st txs) = trustedOracle st"
  by (induction txs arbitrary: st) (simp_all add: run_Nil run_Cons transact_trustedOracle)

text \<open>
  C3. The oracle identity is the one given to the constructor, and no transaction
  changes it. For a caller other than it, a call of \<open>setRiskScore\<close> or of
  \<open>addCollateralToken\<close> (without native currency, which neither function accepts)
  reverts with \<open>Unauthorized\<close> whatever its arguments, also for a score above 100, so
  the caller is checked before the score. Such a caller's transaction, with or without
  native currency, leaves the state, with the score map and the whitelist, as it was.
\<close>

theorem oracle_only_unauthorized:
  assumes "st = run tf (constructor self orc w) txs" and "msg_sender m \<noteq> orc"
  shows "trustedOracle st = orc \<and>
     (msg_value m = 0 \<longrightarrow>
        dispatch tf m (SetRiskScore b s) st = Inl Unauthorized \<and>
        dispatch tf m (AddCollateralToken k) st = Inl Unauthorized) \<and>
     transact tf st (m, SetRiskScore b s) = st \<and>
     transact tf st (m, AddCollateralToken k) = st \<and>
     borrowerRiskScore (transact tf st (m, SetRiskScore b s)) = borrowerRiskScore st \<and>
     supportedCollateral (transact tf st (m, AddCollateralToken k)) = supportedCollateral st"
proof -
  have o: "trustedOracle st = orc"
    by (simp add: assms(1) run_trustedOracle constructor_def)
  from o assms(2) have s: "dispatch tf m (SetRiskScore b s) st =
      (if msg_value m = 0 then Inl Unauthorized else Inl NonPayable)"
    by (simp add: setRiskScore_def nonPayable_def onlyOracle_def)
  from o assms(2) have a: "dispatch tf m (AddCollateralToken k) st =
      (if msg_value m = 0 then Inl Unauthorized else Inl NonPayable)"
    by (simp add: addCollateralToken_def nonPayable_def onlyOracle_def)
  from s have ts: "transact tf st (m, SetRiskScore b s) = st"
    by (simp add: transact_def)
  from a have ta: "transact tf st (m, AddCollateralToken k) = st"
    by (simp add: transact_def)
  from o s a ts ta show ?thesis
    by simp
qed

theorem oracle_only_unauthorized_witness:
  "dispatch noTokens \<lparr> msg_sender = 2, msg_value = 0 \<rparr> (SetRiskScore 2 101)
       (constructor 9 1 ()) = Inl Unauthorized
   \<and> dispatch noTokens \<lparr> msg_sender = 2, msg_value = 0 \<rparr> (AddCollateralToken 7)
       (constructor 9 1 ()) = Inl Unauthorized
   \<and> transact noTokens (constructor 9 1 ())
       (\<lparr> msg_sender = 2, msg_value = 0 \<rparr>, SetRiskScore 2 101) = constructor 9 1 ()
   \<and> dispatch noTokens \<lparr> msg_sender = 1, msg_value = 0 \<rparr> (SetRiskScore 2 101)
       (constructor 9 1 ()) = Inl InvalidScore"
proof -
  let ?tf = "noTokens :: unit transferFrom"
  have r: "constructor 9 1 () = run ?tf (constructor 9 1 ()) []"
    by (simp add: run_def)
  have n: "msg_sender \<lparr> msg_sender = 2, msg_value = 0 \<rparr> \<noteq> (1 :: address)"
    by simp
  have "dispatch ?tf \<lparr> msg_sender = 1, msg_value = 0 \<rparr> (SetRiskScore 2 101)
       (constructor 9 1 ()) = Inl InvalidScore"
    by (simp add: setRiskScore_def nonPayable_def onlyOracle_def constructor_def)
  with oracle_only_unauthorized [OF r n, where b = 2 and s = 101 and k = 7] show ?thesis
    by simp
qed

section \<open>The score check comes before the division\<close>

text \<open>
  C4. Whenever the checks of \<open>applyForLoan\<close> (lines 64 to 82) pass, so that the rate
  computation of line 85 is reached, the score they hand on is the caller's stored
  score and it is at least \<open>1\<close>; the checked division \<open>100 / riskScore\<close> then returns
  a value, and no call of \<open>applyForLoan\<close> ends in the division-by-zero panic.
\<close>

theorem applyForLoan_no_division_by_zero:
  "(applyForLoan_checks tf m ca ct st = Inr (rs, w') \<longrightarrow>
      rs = borrowerRiskScore st (msg_sender m) \<and> 1 \<le> unat rs \<and>
      checked_div 100 rs = Inr (100 div rs)) \<and>
   applyForLoan tf m p t ca ct st \<noteq> Inl (Panic DivisionByZero)"
proof -
  have a: "rs = borrowerRiskScore st (msg_sender m) \<and> 1 \<le> unat rs \<and>
      checked_div 100 rs = Inr (100 div rs)"
    if c: "applyForLoan_checks tf m ca ct st = Inr (rs, w')"
  proof -
    from applyForLoan_checks_score [OF c]
    have rs: "rs = borrowerRiskScore st (msg_sender m)" and nz: "rs \<noteq> 0"
      by blast+
    from nz have "unat rs \<noteq> 0" by (simp add: unat_eq_0)
    then have "1 \<le> unat rs" by simp
    with rs nz show ?thesis by (simp add: checked_div_def)
  qed
  have b: "applyForLoan tf m p t ca ct st \<noteq> Inl (Panic DivisionByZero)"
  proof (cases "applyForLoan_checks tf m ca ct st")
    case (Inl e)
    then have "e \<noteq> Panic DivisionByZero"
      by (auto simp: applyForLoan_checks_def Let_def split: if_splits call_result.splits)
    with Inl show ?thesis by (simp add: applyForLoan_def)
  next
    case (Inr x)
    obtain rs' w'' where x: "x = (rs', w'')" by (cases x)
    from applyForLoan_checks_score [OF Inr [unfolded x]] have "rs' \<noteq> 0" by blast
    then show ?thesis
      by (auto simp: applyForLoan_def Inr x applyForLoan_record_def checked_div_def
            checked_add_def checked_sub_def Let_def split: sum.splits if_splits)
  qed
  from a b show ?thesis by blast
qed

theorem applyForLoan_no_division_by_zero_witness:
  "applyForLoan_checks noTokens \<lparr> msg_sender = 2, msg_value = 5 \<rparr> 5 0
     (run noTokens (constructor 9 1 ())
        [(\<lparr> msg_sender = 1, msg_value = 0 \<rparr>, SetRiskScore 2 50)]) = Inr (50, ())
   \<and> checked_div 100 50 = Inr 2
   \<and> applyForLoan_checks noTokens \<lparr> msg_sender = 3, msg_value = 5 \<rparr> 5 0
     (run noTokens (constructor 9 1 ())
        [(\<lparr> msg_sender = 1, msg_value = 0 \<rparr>, SetRiskScore 2 50)]) = Inl NotScored"
proof -
  let ?tf = "noTokens :: unit transferFrom"
  let ?st = "run ?tf (constructor 9 1 ()) [(\<lparr> msg_sender = 1, msg_value = 0 \<rparr>, SetRiskScore 2 50)]"
  have st: "?st = \<lparr> loans = [], trustedOracle = 1, borrowerRiskScore = (\<lambda>_. 0)(2 := 50),
       supportedCollateral = (\<lambda>_. False), nextLoanId = 1, emitted = [ScoreUpdated 2 50],
       ethHeld = 0, thisAddress = 9, tokenWorld = () \<rparr>"
    by (simp add: run_def transact_def setRiskScore_def nonPayable_def onlyOracle_def constructor_def)
  have c: "applyForLoan_checks ?tf \<lparr> msg_sender = 2, msg_value = 5 \<rparr> 5 0 ?st = Inr (50, ())"
    by (simp add: st applyForLoan_checks_def)
  have n: "applyForLoan_checks ?tf \<lparr> msg_sender = 3, msg_value = 5 \<rparr> 5 0 ?st = Inl NotScored"
    by (simp add: st applyForLoan_checks_def)
  from applyForLoan_no_division_by_zero
         [of ?tf "\<lparr> msg_sender = 2, msg_value = 5 \<rparr>" 5 0 ?st 50 "()" 10 12] c
  have "checked_div 100 (50 :: uint256) = Inr 2"
    by simp
  with c n show ?thesis by blast
qed

section \<open>Collateral routing\<close>

lemma applyForLoan_checks_Inl:
  "applyForLoan_checks tf m ca ct st = Inl e \<Longrightarrow> applyForLoan tf m p t ca ct st = Inl e"
  by (simp add: applyForLoan_def)

text \<open>
  C6. For a caller who passed the score check, \<open>applyForLoan\<close> routes the collateral
  as follows. Native collateral (token address \<open>0\<close>): a \<open>msg.value\<close> other than the
  collateral amount reverts with \<open>CollateralMismatch\<close>. Token collateral: a token that
  is not whitelisted reverts with \<open>UnsupportedCollateral\<close>; a whitelisted token with a
  nonzero \<open>msg.value\<close> reverts with \<open>UnexpectedNativeValue\<close>; a whitelisted token, no
  native value and a pull transfer that fails (it returns \<open>false\<close>, or the token
  reverts) reverts with \<open>TransferFailed\<close>. Whatever the error, the transaction leaves
  the state as it was: no loan is created and \<open>nextLoanId\<close> is unchanged.
\<close>

theorem applyForLoan_collateral_routing:
  assumes "borrowerRiskScore st (msg_sender m) \<noteq> 0"
  shows
    "(ct = 0 \<and> msg_value m \<noteq> ca \<longrightarrow>
        applyForLoan tf m p t ca ct st = Inl CollateralMismatch) \<and>
     (ct \<noteq> 0 \<and> \<not> supportedCollateral st ct \<longrightarrow>
        applyForLoan tf m p t ca ct st = Inl UnsupportedCollateral) \<and>
     (ct \<noteq> 0 \<and> supportedCollateral st ct \<and> msg_value m \<noteq> 0 \<longrightarrow>
        applyForLoan tf m p t ca ct st = Inl UnexpectedNativeValue) \<and>
     (ct \<noteq> 0 \<and> supportedCollateral st ct \<and> msg_value m = 0 \<and>
      tf ct (thisAddress st) (msg_sender m) (thisAddress st) ca (tokenWorld st)
        = Returned False w' \<longrightarrow>
        applyForLoan tf m p t ca ct st = Inl (TransferFailed ReturnedFalse)) \<and>
     (ct \<noteq> 0 \<and> supportedCollateral st ct \<and> msg_value m = 0 \<and>
      tf ct (thisAddress st) (msg_sender m) (thisAddress st) ca (tokenWorld st)
        = Reverted d \<longrightarrow>
        applyForLoan tf m p t ca ct st = Inl (TransferFailed (TokenReverted d))) \<and>
     (applyForLoan tf m p t ca ct st = Inl e \<longrightarrow>
        transact tf st (m, ApplyForLoan p t ca ct) = st \<and>
        loans (transact tf st (m, ApplyForLoan p t ca ct)) = loans st \<and>
        nextLoanId (transact tf st (m, ApplyForLoan p t ca ct)) = nextLoanId st)"
proof -
  from assms have pos: "0 < borrowerRiskScore st (msg_sender m)"
    by (simp add: word_gt_0)
  have 1: "applyForLoan tf m p t ca ct st = Inl CollateralMismatch"
    if "ct = 0 \<and> msg_value m \<noteq> ca"
    using that pos by (intro applyForLoan_checks_Inl) (simp add: applyForLoan_checks_def)
  have 2: "applyForLoan tf m p t ca ct st = Inl UnsupportedCollateral"
    if "ct \<noteq> 0 \<and> \<not> supportedCollateral st ct"
    using that pos by (intro applyForLoan_checks_Inl) (simp add: applyForLoan_checks_def)
  have 3: "applyForLoan tf m p t ca ct st = Inl UnexpectedNativeValue"
    if "ct \<noteq> 0 \<and> supportedCollateral st ct \<and> msg_value m \<noteq> 0"
    using that pos by (intro applyForLoan_checks_Inl) (simp add: applyForLoan_checks_def)
  have 4: "applyForLoan tf m p t ca ct st = Inl (TransferFailed ReturnedFalse)"
    if "ct \<noteq> 0 \<and> supportedCollateral st ct \<and> msg_value m = 0 \<and>
      tf ct (thisAddress st) (msg_sender m) (thisAddress st) ca (tokenWorld st)
        = Returned False w'"
    using that pos by (intro applyForLoan_checks_Inl) (simp add: applyForLoan_checks_def)
  have 5: "applyForLoan tf m p t ca ct st = Inl (TransferFailed (TokenReverted d))"
    if "ct \<noteq> 0 \<and> supportedCollateral st ct \<and> msg_value m = 0 \<and>
      tf ct (thisAddress st) (msg_sender m) (thisAddress st) ca (tokenWorld st)
        = Reverted d"
    using that pos by (intro applyForLoan_checks_Inl) (simp add: applyForLoan_checks_def)
  have 6: "transact tf st (m, ApplyForLoan p t ca ct) = st \<and>
        loans (transact tf st (m, ApplyForLoan p t ca ct)) = loans st \<and>
        nextLoanId (transact tf st (m, ApplyForLoan p t ca ct)) = nextLoanId st"
    if "applyForLoan tf m p t ca ct st = Inl e"
    using that by (simp add: transact_def)
  from 1 2 3 4 5 6 show ?thesis by blast
qed

theorem applyForLoan_collateral_routing_witness:
  "applyForLoan refusingToken \<lparr> msg_sender = 2, msg_value = 4 \<rparr> 10 12 5 0
     (run refusingToken (constructor 9 1 ())
        [(\<lparr> msg_sender = 1, msg_value = 0 \<rparr>, SetRiskScore 2 50),
         (\<lparr> msg_sender = 1, msg_value = 0 \<rparr>, AddCollateralToken 7)])
     = Inl CollateralMismatch
   \<and> applyForLoan refusingToken \<lparr> msg_sender = 2, msg_value = 0 \<rparr> 10 12 3 8
     (run refusingToken (constructor 9 1 ())
        [(\<lparr> msg_sender = 1, msg_value = 0 \<rparr>, SetRiskScore 2 50),
         (\<lparr> msg_sender = 1, msg_value = 0 \<rparr>, AddCollateralToken 7)])
     = Inl UnsupportedCollateral
   \<and> applyForLoan refusingToken \<lparr> msg_sender = 2, msg_value = 1 \<rparr> 10 12 3 7
     (run refusingToken (constructor 9 1 ())
        [(\<lparr> msg_sender = 1, msg_value = 0 \<rparr>, SetRiskScore 2 50),
         (\<lparr> msg_sender = 1, msg_value = 0 \<rparr>, AddCollateralToken 7)])
     = Inl UnexpectedNativeValue
   \<and> applyForLoan refusingToken \<lparr> msg_sender = 2, msg_value = 0 \<rparr> 10 12 3 7
     (run refusingToken (constructor 9 1 ())
        [(\<lparr> msg_sender = 1, msg_value = 0 \<rparr>, SetRiskScore 2 50),
         (\<lparr> msg_sender = 1, msg_value = 0 \<rparr>, AddCollateralToken 7)])
     = Inl (TransferFailed ReturnedFalse)
   \<and> nextLoanId (transact refusingToken
     (run refusingToken (constructor 9 1 ())
        [(\<lparr> msg_sender = 1, msg_value = 0 \<rparr>, SetRiskScore 2 50),
         (\<lparr> msg_sender = 1, msg_value = 0 \<rparr>, AddCollateralToken 7)])
     (\<lparr> msg_sender = 2, msg_value = 0 \<rparr>, ApplyForLoan 10 12 3 7)) = 1"
proof -
  let ?tf = "refusingToken :: unit transferFrom"
  let ?st = "run ?tf (constructor 9 1 ())
        [(\<lparr> msg_sender = 1, msg_value = 0 \<rparr>, SetRiskScore 2 50),
         (\<lparr> msg_sender = 1, msg_value = 0 \<rparr>, AddCollateralToken 7)]"
  have st: "?st = \<lparr> loans = [], trustedOracle = 1, borrowerRiskScore = (\<lambda>_. 0)(2 := 50),
       supportedCollateral = (\<lambda>_. False)(7 := True), nextLoanId = 1,
       emitted = [ScoreUpdated 2 50, CollateralAdded 7],
       ethHeld = 0, thisAddress = 9, tokenWorld = () \<rparr>"
    by (simp add: run_def transact_def setRiskScore_def addCollateralToken_def nonPayable_def onlyOracle_def
          constructor_def)
  have sc: "borrowerRiskScore ?st (msg_sender \<lparr> msg_sender = 2, msg_value = v \<rparr>) \<noteq> 0" for v
    by (simp add: st)
  have a: "applyForLoan ?tf \<lparr> msg_sender = 2, msg_value = 4 \<rparr> 10 12 5 0 ?st
      = Inl CollateralMismatch"
    using applyForLoan_collateral_routing
            [OF sc [of 4], where ct = 0 and ca = 5 and tf = ?tf
               and p = 10 and t = 12]
    by simp
  have b: "applyForLoan ?tf \<lparr> msg_sender = 2, msg_value = 0 \<rparr> 10 12 3 8 ?st
      = Inl UnsupportedCollateral"
    using applyForLoan_collateral_routing
            [OF sc [of 0], where ct = 8 and ca = 3 and tf = ?tf
               and p = 10 and t = 12]
    by (simp add: st)
  have c: "applyForLoan ?tf \<lparr> msg_sender = 2, msg_value = 1 \<rparr> 10 12 3 7 ?st
      = Inl UnexpectedNativeValue"
    using applyForLoan_collateral_routing
            [OF sc [of 1], where ct = 7 and ca = 3 and tf = ?tf
               and p = 10 and t = 12]
    by (simp add: st)
  have d: "applyForLoan ?tf \<lparr> msg_sender = 2, msg_value = 0 \<rparr> 10 12 3 7 ?st
      = Inl (TransferFailed ReturnedFalse)"
    using applyForLoan_collateral_routing
            [OF sc [of 0], where ct = 7 and ca = 3 and tf = ?tf
               and p = 10 and t = 12 and w' = "()"]
    by (simp add: st refusingToken_def)
  have e: "nextLoanId (transact ?tf ?st (\<lparr> msg_sender = 2, msg_value = 0 \<rparr>, ApplyForLoan 10 12 3 7))
      = 1"
    using applyForLoan_collateral_routing
            [OF sc [of 0], where ct = 7 and ca = 3 and tf = ?tf
               and p = 10 and t = 12 and w' = "()"] d
    by (simp add: st)
  from a b c d e show ?thesis by blast
qed

section \<open>Writing a score\<close>

text \<open>
  C7. Called by the oracle (without native currency, which the function does not
  accept), \<open>setRiskScore\<close> accepts exactly the scores from \<open>0\<close> to \<open>100\<close> (a \<open>uint256\<close>
  is never negative). A score above \<open>100\<close> reverts with \<open>InvalidScore\<close> and the
  transaction leaves the state, with the score map, as it was. A score in range
  replaces the borrower's stored value, whatever it was, touches no other borrower's
  and appends \<open>ScoreUpdated\<close> to the log. Writing the same score again succeeds too:
  the score map stays the same and the event is logged once more.
\<close>

theorem setRiskScore_range:
  assumes "msg_sender m = trustedOracle st" and "msg_value m = 0"
  shows
    "(100 < unat s \<longrightarrow>
        dispatch tf m (SetRiskScore b s) st = Inl InvalidScore \<and>
        transact tf st (m, SetRiskScore b s) = st) \<and>
     (unat s \<le> 100 \<longrightarrow>
        dispatch tf m (SetRiskScore b s) st =
          Inr (st\<lparr> borrowerRiskScore := (borrowerRiskScore st)(b := s),
                    emitted := emitted st @ [ScoreUpdated b s] \<rparr>) \<and>
        dispatch tf m (SetRiskScore b s)
            (st\<lparr> borrowerRiskScore := (borrowerRiskScore st)(b := s),
                  emitted := emitted st @ [ScoreUpdated b s] \<rparr>) =
          Inr (st\<lparr> borrowerRiskScore := (borrowerRiskScore st)(b := s),
                    emitted := emitted st @ [ScoreUpdated b s, ScoreUpdated b s] \<rparr>))"
proof -
  have hi: "dispatch tf m (SetRiskScore b s) st = Inl InvalidScore \<and>
      transact tf st (m, SetRiskScore b s) = st"
    if "100 < unat s"
  proof -
    from that have "\<not> s \<le> 100" by (simp add: word_le_nat_alt)
    with assms have "dispatch tf m (SetRiskScore b s) st = Inl InvalidScore"
      by (simp add: setRiskScore_def nonPayable_def onlyOracle_def)
    then show ?thesis by (simp add: transact_def)
  qed
  have lo: "dispatch tf m (SetRiskScore b s) st =
          Inr (st\<lparr> borrowerRiskScore := (borrowerRiskScore st)(b := s),
                    emitted := emitted st @ [ScoreUpdated b s] \<rparr>) \<and>
        dispatch tf m (SetRiskScore b s)
            (st\<lparr> borrowerRiskScore := (borrowerRiskScore st)(b := s),
                  emitted := emitted st @ [ScoreUpdated b s] \<rparr>) =
          Inr (st\<lparr> borrowerRiskScore := (borrowerRiskScore st)(b := s),
                    emitted := emitted st @ [ScoreUpdated b s, ScoreUpdated b s] \<rparr>)"
    if "unat s \<le> 100"
  proof -
    from that have "s \<le> 100" by (simp add: word_le_nat_alt)
    with assms show ?thesis
      by (simp add: setRiskScore_def nonPayable_def onlyOracle_def)
  qed
  from hi lo show ?thesis by blast
qed

theorem setRiskScore_range_witness:
  "dispatch noTokens \<lparr> msg_sender = 1, msg_value = 0 \<rparr> (SetRiskScore 2 101)
       (constructor 9 1 ()) = Inl InvalidScore
   \<and> transact noTokens (constructor 9 1 ())
        (\<lparr> msg_sender = 1, msg_value = 0 \<rparr>, SetRiskScore 2 101) = constructor 9 1 ()
   \<and> dispatch noTokens \<lparr> msg_sender = 1, msg_value = 0 \<rparr> (SetRiskScore 2 100)
       (constructor 9 1 ())
       = Inr \<lparr> loans = [], trustedOracle = 1, borrowerRiskScore = (\<lambda>_. 0)(2 := 100),
               supportedCollateral = (\<lambda>_. False), nextLoanId = 1,
               emitted = [ScoreUpdated 2 100], ethHeld = 0, thisAddress = 9,
               tokenWorld = () \<rparr>
   \<and> dispatch noTokens \<lparr> msg_sender = 1, msg_value = 0 \<rparr> (SetRiskScore 2 100)
         \<lparr> loans = [], trustedOracle = 1, borrowerRiskScore = (\<lambda>_. 0)(2 := 100),
               supportedCollateral = (\<lambda>_. False), nextLoanId = 1,
               emitted = [ScoreUpdated 2 100], ethHeld = 0, thisAddress = 9,
               tokenWorld = () \<rparr>
       = Inr \<lparr> loans = [], trustedOracle = 1, borrowerRiskScore = (\<lambda>_. 0)(2 := 100),
               supportedCollateral = (\<lambda>_. False), nextLoanId = 1,
               emitted = [ScoreUpdated 2 100, ScoreUpdated 2 100], ethHeld = 0, thisAddress = 9,
               tokenWorld = () \<rparr>"
proof -
  let ?tf = "noTokens :: unit transferFrom"
  let ?m = "\<lparr> msg_sender = 1, msg_value = 0 \<rparr>"
  have o: "msg_sender ?m = trustedOracle (constructor 9 1 ())"
    by (simp add: constructor_def)
  have v: "msg_value ?m = 0"
    by simp
  have hi: "dispatch ?tf ?m (SetRiskScore 2 101) (constructor 9 1 ()) = Inl InvalidScore
      \<and> transact ?tf (constructor 9 1 ()) (?m, SetRiskScore 2 101) = constructor 9 1 ()"
    using setRiskScore_range [OF o v, where s = 101 and b = 2 and tf = ?tf] by simp
  have lo: "dispatch ?tf ?m (SetRiskScore 2 100) (constructor 9 1 ())
       = Inr \<lparr> loans = [], trustedOracle = 1, borrowerRiskScore = (\<lambda>_. 0)(2 := 100),
               supportedCollateral = (\<lambda>_. False), nextLoanId = 1,
               emitted = [ScoreUpdated 2 100], ethHeld = 0, thisAddress = 9,
               tokenWorld = () \<rparr>
     \<and> dispatch ?tf ?m (SetRiskScore 2 100)
         \<lparr> loans = [], trustedOracle = 1, borrowerRiskScore = (\<lambda>_. 0)(2 := 100),
               supportedCollateral = (\<lambda>_. False), nextLoanId = 1,
               emitted = [ScoreUpdated 2 100], ethHeld = 0, thisAddress = 9,
               tokenWorld = () \<rparr>
       = Inr \<lparr> loans = [], trustedOracle = 1, borrowerRiskScore = (\<lambda>_. 0)(2 := 100),
               supportedCollateral = (\<lambda>_. False), nextLoanId = 1,
               emitted = [ScoreUpdated 2 100, ScoreUpdated 2 100], ethHeld = 0, thisAddress = 9,
               tokenWorld = () \<rparr>"
    using setRiskScore_range [OF o v, where s = 100 and b = 2 and tf = ?tf]
    by (simp add: constructor_def)
  from hi lo show ?thesis by blast
qed

section \<open>The ledger of loans\<close>

lemma ledger_extends_refl: "ledger_extends st st"
  by (simp add: ledger_extends_def)

lemma ledger_extends_trans:
  assumes "ledger_extends a b" and "ledger_extends b c"
  shows "ledger_extends a c"
proof -
  from assms have ab: "take (length (loans a)) (loans b) = loans a"
    and lab: "length (loans a) \<le> length (loans b)"
    and bc: "take (length (loans b)) (loans c) = loans b"
    and lbc: "length (loans b) \<le> length (loans c)"
    and ok: "ledger_ok a \<longrightarrow> ledger_ok c"
    by (simp_all add: ledger_extends_def)
  have "take (length (loans a)) (loans c) =
      take (length (loans a)) (take (length (loans b)) (loans c))"
    using lab by (simp add: min_def)
  also have "\<dots> = loans a" by (simp add: bc ab)
  finally have "take (length (loans a)) (loans c) = loans a" .
  moreover from lab lbc have "length (loans a) \<le> length (loans c)" by simp
  ultimately show ?thesis using ok by (simp add: ledger_extends_def)
qed

lemma ledger_extends_same:
  "loans st' = loans st \<Longrightarrow> nextLoanId st' = nextLoanId st \<Longrightarrow> ledger_extends st st'"
  by (simp add: ledger_extends_def ledger_ok_def)

lemma ledger_extends_push:
  assumes "loans st' = loans st @ [l]" and "loanId l = nextLoanId st"
    and "nextLoanId st' = nextLoanId st + 1" and "unat (nextLoanId st) + 1 < 2 ^ 256"
  shows "ledger_extends st st'"
proof -
  from assms(4) have "unat (nextLoanId st + 1) = unat (nextLoanId st) + 1"
    by (simp add: unat_word_ariths)
  with assms(1-3) show ?thesis
    by (simp add: ledger_extends_def ledger_ok_def)
qed

lemma applyForLoan_record_extends:
  assumes "applyForLoan_record m p t ca ct rs w' st = Inr st'"
  shows "ledger_extends st st'"
proof -
  from applyForLoan_record_Inr [OF assms]
  have b: "unat (nextLoanId st) + 1 < 2 ^ 256"
    and l: "loans st' = loans st @
              [\<lparr> loanId = nextLoanId st, borrower = msg_sender m, principal = p,
                 interestRate = 100 div rs, tenure = t, collateralAmount = ca,
                 collateralToken = ct, isRepaid = False \<rparr>]"
    and n: "nextLoanId st' = nextLoanId st + 1"
    by simp_all
  from l _ n b show ?thesis
    by (rule ledger_extends_push) simp
qed

lemma runScript_extends:
  assumes h: "\<forall>m c st st'. h m c st = Some st' \<longrightarrow> ledger_extends st st'"
  shows "runScript h s st = Returned b st1 \<Longrightarrow> ledger_extends st st1"
proof (induction s arbitrary: st)
  case (Finish r)
  then show ?case
    by (cases r) (auto intro: ledger_extends_same)
next
  case (CallBack m c k)
  show ?case
  proof (cases "h m c st")
    case None
    with CallBack.prems have "runScript h (k st) st = Returned b st1" by simp
    then show ?thesis by (rule CallBack.IH [OF rangeI])
  next
    case (Some st')
    with CallBack.prems have "runScript h (k st') st' = Returned b st1" by simp
    then have "ledger_extends st' st1" by (rule CallBack.IH [OF rangeI])
    with h Some show ?thesis by (blast intro: ledger_extends_trans)
  qed
qed

lemma applyForLoan_checks_cb_Inr:
  assumes h: "\<forall>m c st st'. h m c st = Some st' \<longrightarrow> ledger_extends st st'"
    and c: "applyForLoan_checks_cb h tok m ca ct st = Inr (rs, st1)"
  shows "rs = borrowerRiskScore st (msg_sender m) \<and> rs \<noteq> 0 \<and> ledger_extends st st1"
proof -
  from c have rs: "rs = borrowerRiskScore st (msg_sender m)" and nz: "rs \<noteq> 0"
    by (auto simp: applyForLoan_checks_cb_def Let_def word_gt_0
          split: if_splits call_result.splits)
  from c have "st1 = st \<or>
      runScript h (tok ct (thisAddress st) (msg_sender m) (thisAddress st) ca st) st
        = Returned True st1"
    by (auto simp: applyForLoan_checks_cb_def Let_def split: if_splits call_result.splits)
  then have "ledger_extends st st1"
    using runScript_extends [OF h] by (auto simp: ledger_extends_refl)
  with rs nz show ?thesis by simp
qed

lemma applyForLoan_checks_cb_plain:
  assumes "ct = 0 \<or> tok ct (thisAddress st) (msg_sender m) (thisAddress st) ca st = Finish r"
    and "applyForLoan_checks_cb h tok m ca ct st = Inr (rs, st1)"
  shows "loans st1 = loans st \<and> nextLoanId st1 = nextLoanId st"
  using assms
  by (auto simp: applyForLoan_checks_cb_def Let_def split: if_splits call_result.splits)

lemma applyForLoan_cb_Inr:
  assumes h: "\<forall>m c st st'. h m c st = Some st' \<longrightarrow> ledger_extends st st'"
    and a: "applyForLoan_cb h tok m p t ca ct st = Inr st'"
  shows "\<exists>st1. applyForLoan_checks_cb h tok m ca ct st
            = Inr (borrowerRiskScore st (msg_sender m), st1) \<and>
     ledger_extends st st1 \<and> unat (nextLoanId st1) + 1 < 2 ^ 256 \<and>
     loans st' = loans st1 @
        [\<lparr> loanId = nextLoanId st1, borrower = msg_sender m, principal = p,
           interestRate = 100 div borrowerRiskScore st (msg_sender m), tenure = t,
           collateralAmount = ca, collateralToken = ct, isRepaid = False \<rparr>] \<and>
     nextLoanId st' = nextLoanId st1 + 1"
proof -
  from a obtain rs st1 where
    c: "applyForLoan_checks_cb h tok m ca ct st = Inr (rs, st1)" and
    r: "applyForLoan_record m p t ca ct rs (tokenWorld st1) st1 = Inr st'"
    by (auto simp: applyForLoan_cb_def split: sum.splits)
  from applyForLoan_checks_cb_Inr [OF h c]
  have rs: "rs = borrowerRiskScore st (msg_sender m)" and e: "ledger_extends st st1"
    by blast+
  from applyForLoan_record_Inr [OF r] c rs e show ?thesis
    by auto
qed

lemma dispatch_cb_extends:
  assumes h: "\<forall>m c st st'. h m c st = Some st' \<longrightarrow> ledger_extends st st'"
    and d: "dispatch_cb h tok m c st = Inr st'"
  shows "ledger_extends st st'"
proof (cases c)
  case (SetRiskScore b s)
  with d have "setRiskScore m b s st = Inr st'" by simp
  from setRiskScore_Inr [OF this] show ?thesis by (simp add: ledger_extends_same)
next
  case (AddCollateralToken k)
  with d have "addCollateralToken m k st = Inr st'" by simp
  from addCollateralToken_Inr [OF this] show ?thesis by (simp add: ledger_extends_same)
next
  case (ApplyForLoan p t ca ct)
  with d have "applyForLoan_cb h tok m p t ca ct st = Inr st'" by simp
  from applyForLoan_cb_Inr [OF h this] obtain st1 where
    e: "ledger_extends st st1" and b: "unat (nextLoanId st1) + 1 < 2 ^ 256" and
    l: "loans st' = loans st1 @
        [\<lparr> loanId = nextLoanId st1, borrower = msg_sender m, principal = p,
           interestRate = 100 div borrowerRiskScore st (msg_sender m), tenure = t,
           collateralAmount = ca, collateralToken = ct, isRepaid = False \<rparr>]" and
    n: "nextLoanId st' = nextLoanId st1 + 1"
    by blast
  from l _ n b have "ledger_extends st1 st'"
    by (rule ledger_extends_push) simp
  with e show ?thesis by (rule ledger_extends_trans)
qed

lemma callback_extends:
  "\<forall>m c st st'. callback d tok m c st = Some st' \<longrightarrow> ledger_extends st st'"
proof (induction d)
  case 0
  show ?case by simp
next
  case (Suc d)
  show ?case
  proof (intro allI impI)
    fix m c st st'
    assume "callback (Suc d) tok m c st = Some st'"
    then have "dispatch_cb (callback d tok) tok m c st = Inr st'"
      by (simp split: sum.splits)
    with Suc.IH show "ledger_extends st st'" by (rule dispatch_cb_extends)
  qed
qed

lemma transact_cb_extends: "ledger_extends st (transact_cb d tok st tx)"
proof (cases "dispatch_cb (callback d tok) tok (fst tx) (snd tx) st")
  case (Inl e)
  then show ?thesis by (simp add: transact_cb_def ledger_extends_refl)
next
  case (Inr st')
  from dispatch_cb_extends [OF callback_extends Inr] Inr
  show ?thesis by (simp add: transact_cb_def)
qed

lemma run_cb_extends: "ledger_extends st (run_cb d tok st txs)"
proof (induction txs rule: rev_induct)
  case Nil
  show ?case by (simp add: run_cb_def ledger_extends_refl)
next
  case (snoc tx txs)
  have "run_cb d tok st (txs @ [tx]) = transact_cb d tok (run_cb d tok st txs) tx"
    by (simp add: run_cb_def)
  with snoc.IH transact_cb_extends [of "run_cb d tok st txs" d tok tx] show ?case
    by (auto intro: ledger_extends_trans)
qed

lemma constructor_ledger_ok: "ledger_ok (constructor self orc w)"
  by (simp add: ledger_ok_def constructor_def)

lemma run_cb_ledger_ok: "ledger_ok (run_cb d tok (constructor self orc w) txs)"
  using run_cb_extends [of "constructor self orc w" d tok txs]
    constructor_ledger_ok [of self orc w]
  by (simp add: ledger_extends_def)

text \<open>Against a token that makes no call, the two models of the contract agree.\<close>

lemma applyForLoan_cb_plainToken:
  "applyForLoan_cb h (plainToken tf) m p t ca ct st = applyForLoan tf m p t ca ct st"
  by (auto simp: applyForLoan_cb_def applyForLoan_checks_cb_def applyForLoan_def
        applyForLoan_checks_def plainToken_def Let_def applyForLoan_record_def
      split: call_result.splits sum.splits)

lemma dispatch_cb_plainToken: "dispatch_cb h (plainToken tf) m c st = dispatch tf m c st"
  by (cases c) (simp_all add: applyForLoan_cb_plainToken)

lemma run_cb_plainToken: "run_cb d (plainToken tf) st txs = run tf st txs"
proof -
  have "transact_cb d (plainToken tf) = transact tf"
    by (intro ext) (simp add: transact_cb_def transact_def dispatch_cb_plainToken)
  then show ?thesis by (simp add: run_cb_def run_def)
qed

text \<open>
  C5, as far as it holds. In every state reached from the constructor by any sequence
  of transactions, whatever the tokens do, the ids of the recorded loans are
  \<open>1, 2, 3, \<dots>\<close> in the order of recording, without gap or reuse, and \<open>nextLoanId\<close>
  is the number of loans plus one. A successful \<open>applyForLoan\<close> keeps the loans
  recorded before it and appends its own loan last, with the id \<open>nextLoanId\<close> has at
  the push, and leaves \<open>nextLoanId\<close> one above that id (the increment is checked, so
  it does not wrap around). When the collateral is native or the token makes no call
  back, the call appends exactly that one loan, its id is the \<open>nextLoanId\<close> before
  the call, and \<open>nextLoanId\<close> grows by one. Whatever transactions follow, the loans
  recorded so far stay where they are and as they are: the ledger only grows at its
  end.
\<close>

theorem loans_append_only:
  assumes "st = run_cb d tok (constructor self orc w) txs"
  shows
    "map (\<lambda>l. unat (loanId l)) (loans st) = [1..<Suc (length (loans st))] \<and>
     unat (nextLoanId st) = Suc (length (loans st)) \<and>
     (dispatch_cb (callback d tok) tok m (ApplyForLoan p t ca ct) st = Inr st' \<longrightarrow>
        take (length (loans st)) (loans st') = loans st \<and>
        length (loans st) < length (loans st') \<and>
        last (loans st') =
          \<lparr> loanId = nextLoanId st' - 1, borrower = msg_sender m, principal = p,
            interestRate = 100 div borrowerRiskScore st (msg_sender m), tenure = t,
            collateralAmount = ca, collateralToken = ct, isRepaid = False \<rparr> \<and>
        unat (nextLoanId st') = Suc (length (loans st'))) \<and>
     ((ct = 0 \<or> tok ct (thisAddress st) (msg_sender m) (thisAddress st) ca st = Finish r) \<and>
      dispatch_cb (callback d tok) tok m (ApplyForLoan p t ca ct) st = Inr st' \<longrightarrow>
        loans st' = loans st @ [last (loans st')] \<and>
        loanId (last (loans st')) = nextLoanId st \<and>
        unat (nextLoanId st') = unat (nextLoanId st) + 1) \<and>
     take (length (loans st)) (loans (run_cb d tok st txs')) = loans st \<and>
     length (loans st) \<le> length (loans (run_cb d tok st txs'))"
proof -
  have ok: "ledger_ok st"
    unfolding assms by (rule run_cb_ledger_ok)
  have call: "take (length (loans st)) (loans st') = loans st \<and>
        length (loans st) < length (loans st') \<and>
        last (loans st') =
          \<lparr> loanId = nextLoanId st' - 1, borrower = msg_sender m, principal = p,
            interestRate = 100 div borrowerRiskScore st (msg_sender m), tenure = t,
            collateralAmount = ca, collateralToken = ct, isRepaid = False \<rparr> \<and>
        unat (nextLoanId st') = Suc (length (loans st')) \<and>
        ((ct = 0 \<or> tok ct (thisAddress st) (msg_sender m) (thisAddress st) ca st = Finish r)
          \<longrightarrow> loans st' = loans st @ [last (loans st')] \<and>
              loanId (last (loans st')) = nextLoanId st \<and>
              unat (nextLoanId st') = unat (nextLoanId st) + 1)"
    if h: "dispatch_cb (callback d tok) tok m (ApplyForLoan p t ca ct) st = Inr st'"
  proof -
    from h have a: "applyForLoan_cb (callback d tok) tok m p t ca ct st = Inr st'"
      by simp
    from applyForLoan_cb_Inr [OF callback_extends a] obtain st1 where
      c: "applyForLoan_checks_cb (callback d tok) tok m ca ct st
            = Inr (borrowerRiskScore st (msg_sender m), st1)" and
      e: "ledger_extends st st1" and b: "unat (nextLoanId st1) + 1 < 2 ^ 256" and
      l: "loans st' = loans st1 @
        [\<lparr> loanId = nextLoanId st1, borrower = msg_sender m, principal = p,
           interestRate = 100 div borrowerRiskScore st (msg_sender m), tenure = t,
           collateralAmount = ca, collateralToken = ct, isRepaid = False \<rparr>]" and
      n: "nextLoanId st' = nextLoanId st1 + 1"
      by blast
    from e have pre: "take (length (loans st)) (loans st1) = loans st"
      and len: "length (loans st) \<le> length (loans st1)"
      by (simp_all add: ledger_extends_def)
    from e ok have "ledger_ok st1"
      by (simp add: ledger_extends_def)
    then have n1: "unat (nextLoanId st1) = Suc (length (loans st1))"
      by (simp add: ledger_ok_def)
    from b have inc: "unat (nextLoanId st1 + 1) = unat (nextLoanId st1) + 1"
      by (simp add: unat_word_ariths)
    from pre len have 1: "take (length (loans st)) (loans st') = loans st"
      by (simp add: l)
    from len have 2: "length (loans st) < length (loans st')"
      by (simp add: l)
    have 3: "last (loans st') =
          \<lparr> loanId = nextLoanId st' - 1, borrower = msg_sender m, principal = p,
            interestRate = 100 div borrowerRiskScore st (msg_sender m), tenure = t,
            collateralAmount = ca, collateralToken = ct, isRepaid = False \<rparr>"
      by (simp add: l n)
    from n1 inc have 4: "unat (nextLoanId st') = Suc (length (loans st'))"
      by (simp add: l n)
    have 5: "loans st' = loans st @ [last (loans st')] \<and>
              loanId (last (loans st')) = nextLoanId st \<and>
              unat (nextLoanId st') = unat (nextLoanId st) + 1"
      if "ct = 0 \<or> tok ct (thisAddress st) (msg_sender m) (thisAddress st) ca st = Finish r"
    proof -
      from applyForLoan_checks_cb_plain [OF that c]
      have "loans st1 = loans st" and "nextLoanId st1 = nextLoanId st"
        by simp_all
      with inc show ?thesis
        by (simp add: l n)
    qed
    from 1 2 3 4 5 show ?thesis by blast
  qed
  from run_cb_extends [of st d tok txs']
  have later: "take (length (loans st)) (loans (run_cb d tok st txs')) = loans st \<and>
     length (loans st) \<le> length (loans (run_cb d tok st txs'))"
    by (simp add: ledger_extends_def)
  from ok have inv: "map (\<lambda>l. unat (loanId l)) (loans st) = [1..<Suc (length (loans st))] \<and>
     unat (nextLoanId st) = Suc (length (loans st))"
    by (simp add: ledger_ok_def)
  from inv call later show ?thesis
    by blast
qed

theorem loans_append_only_witness:
  "map (\<lambda>l. unat (loanId l))
     (loans (run_cb 1024 reenteringToken (constructor 9 1 ())
        [(\<lparr> msg_sender = 1, msg_value = 0 \<rparr>, SetRiskScore 2 50),
         (\<lparr> msg_sender = 1, msg_value = 0 \<rparr>, AddCollateralToken 7),
         (\<lparr> msg_sender = 2, msg_value = 5 \<rparr>, ApplyForLoan 10 12 5 0),
         (\<lparr> msg_sender = 2, msg_value = 0 \<rparr>, ApplyForLoan 10 12 3 8),
         (\<lparr> msg_sender = 2, msg_value = 0 \<rparr>, ApplyForLoan 20 12 3 7)])) = [1, 2, 3]
   \<and> nextLoanId (run_cb 1024 reenteringToken (constructor 9 1 ())
        [(\<lparr> msg_sender = 1, msg_value = 0 \<rparr>, SetRiskScore 2 50),
         (\<lparr> msg_sender = 1, msg_value = 0 \<rparr>, AddCollateralToken 7),
         (\<lparr> msg_sender = 2, msg_value = 5 \<rparr>, ApplyForLoan 10 12 5 0),
         (\<lparr> msg_sender = 2, msg_value = 0 \<rparr>, ApplyForLoan 10 12 3 8),
         (\<lparr> msg_sender = 2, msg_value = 0 \<rparr>, ApplyForLoan 20 12 3 7)]) = 4
   \<and> map principal (loans (run_cb 1024 reenteringToken (constructor 9 1 ())
        [(\<lparr> msg_sender = 1, msg_value = 0 \<rparr>, SetRiskScore 2 50),
         (\<lparr> msg_sender = 1, msg_value = 0 \<rparr>, AddCollateralToken 7),
         (\<lparr> msg_sender = 2, msg_value = 5 \<rparr>, ApplyForLoan 10 12 5 0),
         (\<lparr> msg_sender = 2, msg_value = 0 \<rparr>, ApplyForLoan 10 12 3 8),
         (\<lparr> msg_sender = 2, msg_value = 0 \<rparr>, ApplyForLoan 20 12 3 7)])) = [10, 0, 20]"
proof -
  let ?tok = "reenteringToken :: unit token"
  let ?txs = "[(\<lparr> msg_sender = 1, msg_value = 0 \<rparr>, SetRiskScore 2 50),
         (\<lparr> msg_sender = 1, msg_value = 0 \<rparr>, AddCollateralToken 7),
         (\<lparr> msg_sender = 2, msg_value = 5 \<rparr>, ApplyForLoan 10 12 5 0),
         (\<lparr> msg_sender = 2, msg_value = 0 \<rparr>, ApplyForLoan 10 12 3 8),
         (\<lparr> msg_sender = 2, msg_value = 0 \<rparr>, ApplyForLoan 20 12 3 7)]"
  let ?st = "run_cb 1024 ?tok (constructor 9 1 ()) ?txs"
  have d: "callback 1024 ?tok m c st =
      (case dispatch_cb (callback 1023 ?tok) ?tok m c st of
         Inl e \<Rightarrow> None | Inr st' \<Rightarrow> Some st')" for m c st
  proof -
    have "callback 1024 ?tok = callback (Suc 1023) ?tok" by simp
    then show ?thesis by (simp only: callback.simps)
  qed
  have pr: "map principal (loans ?st) = [10, 0, 20]" and nxt: "nextLoanId ?st = 4"
    by (simp_all add: d run_cb_def transact_cb_def setRiskScore_def addCollateralToken_def
          nonPayable_def onlyOracle_def constructor_def reenteringToken_def
          applyForLoan_cb_def applyForLoan_checks_cb_def applyForLoan_record_def
          checked_div_def checked_add_def checked_sub_def Let_def)
  from arg_cong [OF pr, of length] have len: "length (loans ?st) = 3"
    by simp
  have "[1..<Suc 3] = [1, 2, 3]" by (simp add: upt_rec)
  with loans_append_only [OF refl, of 1024 ?tok 9 1 "()" ?txs] len pr nxt show ?thesis
    by simp
qed

text \<open>
  The claim C5 as the specification words it, with every successful \<open>applyForLoan\<close>
  appending exactly one loan under the \<open>nextLoanId\<close> it finds and adding one to it,
  fails on the contract. Borrower \<open>2\<close> has score 50 and token \<open>7\<close> is whitelisted; no
  loan is recorded and \<open>nextLoanId\<close> is \<open>1\<close>. Borrower \<open>2\<close> applies with token \<open>7\<close> as
  collateral, and the token, before it returns, has borrower \<open>2\<close> apply once more.
  The one transaction succeeds and leaves two loans: the inner one (principal \<open>0\<close>)
  with id \<open>1\<close>, the outer one (principal \<open>10\<close>) with id \<open>2\<close>, not the id \<open>1\<close> it found
  at its start, and \<open>nextLoanId\<close> is \<open>3\<close>.
\<close>

theorem applyForLoan_reentry_counterexample:
  "loans (run_cb 1024 reenteringToken (constructor 9 1 ())
        [(\<lparr> msg_sender = 1, msg_value = 0 \<rparr>, SetRiskScore 2 50),
         (\<lparr> msg_sender = 1, msg_value = 0 \<rparr>, AddCollateralToken 7)]) = []
   \<and> nextLoanId (run_cb 1024 reenteringToken (constructor 9 1 ())
        [(\<lparr> msg_sender = 1, msg_value = 0 \<rparr>, SetRiskScore 2 50),
         (\<lparr> msg_sender = 1, msg_value = 0 \<rparr>, AddCollateralToken 7)]) = 1
   \<and> loans (transact_cb 1024 reenteringToken
        (run_cb 1024 reenteringToken (constructor 9 1 ())
          [(\<lparr> msg_sender = 1, msg_value = 0 \<rparr>, SetRiskScore 2 50),
           (\<lparr> msg_sender = 1, msg_value = 0 \<rparr>, AddCollateralToken 7)])
        (\<lparr> msg_sender = 2, msg_value = 0 \<rparr>, ApplyForLoan 10 12 3 7))
     = [\<lparr> loanId = 1, borrower = 2, principal = 0, interestRate = 2, tenure = 0,
          collateralAmount = 0, collateralToken = 0, isRepaid = False \<rparr>,
        \<lparr> loanId = 2, borrower = 2, principal = 10, interestRate = 2, tenure = 12,
          collateralAmount = 3, collateralToken = 7, isRepaid = False \<rparr>]
   \<and> nextLoanId (transact_cb 1024 reenteringToken
        (run_cb 1024 reenteringToken (constructor 9 1 ())
          [(\<lparr> msg_sender = 1, msg_value = 0 \<rparr>, SetRiskScore 2 50),
           (\<lparr> msg_sender = 1, msg_value = 0 \<rparr>, AddCollateralToken 7)])
        (\<lparr> msg_sender = 2, msg_value = 0 \<rparr>, ApplyForLoan 10 12 3 7)) = 3"
proof -
  let ?tok = "reenteringToken :: unit token"
  have d: "callback 1024 ?tok m c st =
      (case dispatch_cb (callback 1023 ?tok) ?tok m c st of
         Inl e \<Rightarrow> None | Inr st' \<Rightarrow> Some st')" for m c st
  proof -
    have "callback 1024 ?tok = callback (Suc 1023) ?tok" by simp
    then show ?thesis by (simp only: callback.simps)
  qed
  show ?thesis
    by (simp add: d run_cb_def transact_cb_def setRiskScore_def addCollateralToken_def
          nonPayable_def onlyOracle_def constructor_def reenteringToken_def
          applyForLoan_cb_def applyForLoan_checks_cb_def applyForLoan_record_def
          checked_div_def checked_add_def checked_sub_def Let_def)
qed

section \<open>The whitelist of collateral tokens\<close>

lemma dispatch_supportedCollateral:
  assumes "dispatch tf m c st = Inr st'" and "supportedCollateral st k"
  shows "supportedCollateral st' k"
proof (cases c)
  case (SetRiskScore b s)
  with assms(1) have "setRiskScore m b s st = Inr st'" by (simp split: if_splits)
  from setRiskScore_Inr [OF this] assms(2) show ?thesis by simp
next
  case (AddCollateralToken k')
  with assms(1) have "addCollateralToken m k' st = Inr st'" by (simp split: if_splits)
  from addCollateralToken_Inr [OF this] assms(2) show ?thesis by simp
next
  case (ApplyForLoan p d ca ct)
  with assms(1) have "applyForLoan tf m p d ca ct st = Inr st'" by simp
  from applyForLoan_Inr [OF this] assms(2) show ?thesis by auto
qed

lemma transact_supportedCollateral:
  "supportedCollateral st k \<Longrightarrow> supportedCollateral (transact tf st tx) k"
  by (cases "dispatch tf (fst tx) (snd tx) st")
     (simp_all add: transact_def dispatch_supportedCollateral)

lemma run_supportedCollateral:
  "supportedCollateral st k \<Longrightarrow> supportedCollateral (run tf st txs) k"
  by (induction txs arbitrary: st) (simp_all add: run_Nil run_Cons transact_supportedCollateral)

text \<open>
  C9. No transaction takes a token off the whitelist: a token that is whitelisted in a
  state is whitelisted in every state that any sequence of transactions leads to from
  there. In particular, once \<open>addCollateralToken\<close> has succeeded for a token, the token
  is whitelisted then and after every later sequence of transactions.
\<close>

theorem supportedCollateral_monotone:
  "(supportedCollateral st k \<longrightarrow> supportedCollateral (run tf st txs) k) \<and>
   (addCollateralToken m k st = Inr st' \<longrightarrow>
      supportedCollateral st' k \<and> supportedCollateral (run tf st' txs) k)"
proof -
  have "supportedCollateral st' k \<and> supportedCollateral (run tf st' txs) k"
    if h: "addCollateralToken m k st = Inr st'"
  proof -
    from addCollateralToken_Inr [OF h] have "supportedCollateral st' k" by simp
    then show ?thesis by (simp add: run_supportedCollateral)
  qed
  then show ?thesis by (simp add: run_supportedCollateral)
qed

theorem supportedCollateral_monotone_witness:
  "addCollateralToken \<lparr> msg_sender = 1, msg_value = 0 \<rparr> 7 (constructor 9 1 ())
     = Inr \<lparr> loans = [], trustedOracle = 1, borrowerRiskScore = (\<lambda>_. 0),
             supportedCollateral = (\<lambda>_. False)(7 := True), nextLoanId = 1,
             emitted = [CollateralAdded 7], ethHeld = 0, thisAddress = 9, tokenWorld = () \<rparr>
   \<and> supportedCollateral
       (run noTokens
          \<lparr> loans = [], trustedOracle = 1, borrowerRiskScore = (\<lambda>_. 0),
            supportedCollateral = (\<lambda>_. False)(7 := True), nextLoanId = 1,
            emitted = [CollateralAdded 7], ethHeld = 0, thisAddress = 9, tokenWorld = () \<rparr>
          [(\<lparr> msg_sender = 1, msg_value = 0 \<rparr>, SetRiskScore 2 50),
           (\<lparr> msg_sender = 1, msg_value = 0 \<rparr>, AddCollateralToken 8),
           (\<lparr> msg_sender = 2, msg_value = 5 \<rparr>, ApplyForLoan 10 12 5 0)]) 7"
proof -
  let ?st' = "\<lparr> loans = [], trustedOracle = 1, borrowerRiskScore = (\<lambda>_. 0),
            supportedCollateral = (\<lambda>_. False)(7 := True), nextLoanId = 1,
            emitted = [CollateralAdded 7], ethHeld = 0, thisAddress = 9, tokenWorld = () \<rparr>"
  have h: "addCollateralToken \<lparr> msg_sender = 1, msg_value = 0 \<rparr> 7 (constructor 9 1 ()) = Inr ?st'"
    by (simp add: addCollateralToken_def nonPayable_def onlyOracle_def constructor_def)
  with supportedCollateral_monotone
         [where m = "\<lparr> msg_sender = 1, msg_value = 0 \<rparr>" and k = 7
            and st = "constructor 9 1 ()" and st' = ?st']
  show ?thesis by simp
qed

section \<open>Reading a score\<close>

text \<open>
  C8, as far as it holds. Reading a score is the getter of \<open>borrowerRiskScore\<close>: a
  function of the state that returns one \<open>uint256\<close> and cannot revert. For a borrower
  whose score no transaction since construction has written it returns \<open>0\<close>. There is
  no presence flag: when the oracle writes \<open>0\<close> for such a borrower, the getter
  returns for every address what it returned before.
\<close>

theorem getScore_never_written:
  assumes "st = run tf (constructor self orc w) txs"
    and "\<forall>tx\<in>set txs. \<not> targets b (snd tx)"
  shows "getScore st b = 0 \<and>
     (setRiskScore m b 0 st = Inr st' \<longrightarrow> getScore st' = getScore st)"
proof -
  from assms have z: "borrowerRiskScore st b = 0"
    by (simp add: run_score constructor_score)
  have "getScore st' = getScore st" if h: "setRiskScore m b 0 st = Inr st'"
  proof
    fix a
    from setRiskScore_Inr [OF h] z show "getScore st' a = getScore st a"
      by (simp add: getScore_def)
  qed
  with z show ?thesis by (simp add: getScore_def)
qed

theorem getScore_never_written_witness:
  "getScore (run noTokens (constructor 9 1 ())
       [(\<lparr> msg_sender = 1, msg_value = 0 \<rparr>, SetRiskScore 2 50)]) 3 = 0
   \<and> setRiskScore \<lparr> msg_sender = 1, msg_value = 0 \<rparr> 3 0
       (run noTokens (constructor 9 1 ())
         [(\<lparr> msg_sender = 1, msg_value = 0 \<rparr>, SetRiskScore 2 50)])
     = Inr \<lparr> loans = [], trustedOracle = 1, borrowerRiskScore = (\<lambda>_. 0)(2 := 50, 3 := 0),
             supportedCollateral = (\<lambda>_. False), nextLoanId = 1,
             emitted = [ScoreUpdated 2 50, ScoreUpdated 3 0], ethHeld = 0, thisAddress = 9,
             tokenWorld = () \<rparr>
   \<and> getScore \<lparr> loans = [], trustedOracle = 1, borrowerRiskScore = (\<lambda>_. 0)(2 := 50, 3 := 0),
             supportedCollateral = (\<lambda>_. False), nextLoanId = 1,
             emitted = [ScoreUpdated 2 50, ScoreUpdated 3 0], ethHeld = 0, thisAddress = 9,
             tokenWorld = () \<rparr>
     = getScore (run noTokens (constructor 9 1 ())
         [(\<lparr> msg_sender = 1, msg_value = 0 \<rparr>, SetRiskScore 2 50)])"
proof -
  let ?tf = "noTokens :: unit transferFrom"
  let ?txs = "[(\<lparr> msg_sender = 1, msg_value = 0 \<rparr>, SetRiskScore 2 50)]"
  let ?st = "run ?tf (constructor 9 1 ()) ?txs"
  let ?st' = "\<lparr> loans = [], trustedOracle = 1, borrowerRiskScore = (\<lambda>_. 0)(2 := 50, 3 := 0),
             supportedCollateral = (\<lambda>_. False), nextLoanId = 1,
             emitted = [ScoreUpdated 2 50, ScoreUpdated 3 0], ethHeld = 0, thisAddress = 9,
             tokenWorld = () \<rparr>"
  have st: "?st = \<lparr> loans = [], trustedOracle = 1, borrowerRiskScore = (\<lambda>_. 0)(2 := 50),
       supportedCollateral = (\<lambda>_. False), nextLoanId = 1, emitted = [ScoreUpdated 2 50],
       ethHeld = 0, thisAddress = 9, tokenWorld = () \<rparr>"
    by (simp add: run_def transact_def setRiskScore_def nonPayable_def onlyOracle_def constructor_def)
  have nw: "\<forall>tx\<in>set ?txs. \<not> targets 3 (snd tx)" by simp
  have h: "setRiskScore \<lparr> msg_sender = 1, msg_value = 0 \<rparr> 3 0 ?st = Inr ?st'"
    by (simp add: st setRiskScore_def nonPayable_def onlyOracle_def)
  from getScore_never_written [OF refl nw, where m = "\<lparr> msg_sender = 1, msg_value = 0 \<rparr>"
         and st' = ?st'] h
  show ?thesis by simp
qed

text \<open>
  The claim C8 as the specification words it, with a presence flag that tells a
  written \<open>0\<close> from no score, fails on the contract. After the oracle has written
  \<open>0\<close> for borrower \<open>2\<close> (the write succeeds: its event is in the log), the getter
  returns for borrower \<open>2\<close>, and the score map holds for every address, what it did
  in the state just constructed, where nothing was ever written.
\<close>

theorem getScore_written_zero_counterexample:
  "emitted (transact noTokens (constructor 9 1 ())
       (\<lparr> msg_sender = 1, msg_value = 0 \<rparr>, SetRiskScore 2 0)) = [ScoreUpdated 2 0]
   \<and> emitted (constructor 9 1 ()) = []
   \<and> getScore (transact noTokens (constructor 9 1 ())
       (\<lparr> msg_sender = 1, msg_value = 0 \<rparr>, SetRiskScore 2 0)) 2
     = getScore (constructor 9 1 ()) 2
   \<and> borrowerRiskScore (transact noTokens (constructor 9 1 ())
       (\<lparr> msg_sender = 1, msg_value = 0 \<rparr>, SetRiskScore 2 0))
     = borrowerRiskScore (constructor 9 1 ())"
  by (simp add: transact_def setRiskScore_def nonPayable_def onlyOracle_def constructor_def getScore_def fun_eq_iff)

section \<open>No positivity check on the amounts\<close>

text \<open>
  C10. \<open>applyForLoan\<close> checks none of its numeric arguments for being positive. For a
  caller with a stored score of at least \<open>1\<close>, the call with principal \<open>0\<close>, tenure
  \<open>0\<close>, collateral amount \<open>0\<close>, native collateral and no native value sent succeeds,
  and appends to the ledger a loan with principal \<open>0\<close>, tenure \<open>0\<close> and collateral
  amount \<open>0\<close>. The only other way for the call to revert is the checked increment of
  \<open>nextLoanId\<close>, at the largest \<open>uint256\<close>, which takes \<open>2 ^ 256 - 2\<close> recorded
  loans to reach; the theorem assumes the counter below it.
\<close>

theorem applyForLoan_zero_amounts:
  assumes "1 \<le> unat (borrowerRiskScore st (msg_sender m))"
    and "msg_value m = 0"
    and "unat (nextLoanId st) < 2 ^ 256 - 1"
  shows "applyForLoan tf m 0 0 0 0 st =
     Inr (st\<lparr> loans := loans st @
              [\<lparr> loanId = nextLoanId st, borrower = msg_sender m, principal = 0,
                 interestRate = 100 div borrowerRiskScore st (msg_sender m), tenure = 0,
                 collateralAmount = 0, collateralToken = 0, isRepaid = False \<rparr>],
             nextLoanId := nextLoanId st + 1,
             emitted := emitted st @
              [LoanDisbursed (nextLoanId st) (msg_sender m) 0
                 (100 div borrowerRiskScore st (msg_sender m)) 0 0],
             ethHeld := ethHeld st,
             tokenWorld := tokenWorld st \<rparr>)"
proof -
  from assms(1) have nz: "borrowerRiskScore st (msg_sender m) \<noteq> 0"
    by (auto simp: unat_eq_0)
  then have pos: "0 < borrowerRiskScore st (msg_sender m)"
    by (simp add: word_gt_0)
  from pos assms(2) have c: "applyForLoan_checks tf m 0 0 st =
      Inr (borrowerRiskScore st (msg_sender m), tokenWorld st)"
    by (simp add: applyForLoan_checks_def)
  from assms(3) have b: "unat (nextLoanId st) + 1 < 2 ^ 256"
    by simp
  from applyForLoan_record_succeeds [OF nz b, of m 0 0 0 0 "tokenWorld st"] c assms(2)
  show ?thesis
    by (simp add: applyForLoan_def)
qed

theorem applyForLoan_zero_amounts_witness:
  "applyForLoan noTokens \<lparr> msg_sender = 2, msg_value = 0 \<rparr> 0 0 0 0
     (run noTokens (constructor 9 1 ())
        [(\<lparr> msg_sender = 1, msg_value = 0 \<rparr>, SetRiskScore 2 1)])
   = Inr \<lparr> loans = [\<lparr> loanId = 1, borrower = 2, principal = 0, interestRate = 100, tenure = 0,
                      collateralAmount = 0, collateralToken = 0, isRepaid = False \<rparr>],
           trustedOracle = 1, borrowerRiskScore = (\<lambda>_. 0)(2 := 1),
           supportedCollateral = (\<lambda>_. False), nextLoanId = 2,
           emitted = [ScoreUpdated 2 1, LoanDisbursed 1 2 0 100 0 0],
           ethHeld = 0, thisAddress = 9, tokenWorld = () \<rparr>"
proof -
  let ?tf = "noTokens :: unit transferFrom"
  let ?m = "\<lparr> msg_sender = 2, msg_value = 0 \<rparr>"
  let ?st = "run ?tf (constructor 9 1 ()) [(\<lparr> msg_sender = 1, msg_value = 0 \<rparr>, SetRiskScore 2 1)]"
  have st: "?st = \<lparr> loans = [], trustedOracle = 1, borrowerRiskScore = (\<lambda>_. 0)(2 := 1),
       supportedCollateral = (\<lambda>_. False), nextLoanId = 1, emitted = [ScoreUpdated 2 1],
       ethHeld = 0, thisAddress = 9, tokenWorld = () \<rparr>"
    by (simp add: run_def transact_def setRiskScore_def nonPayable_def onlyOracle_def constructor_def)
  have s: "1 \<le> unat (borrowerRiskScore ?st (msg_sender ?m))"
    by (simp add: st)
  have v: "msg_value ?m = 0"
    by simp
  have n: "unat (nextLoanId ?st) < 2 ^ 256 - 1"
    by (simp add: st)
  from applyForLoan_zero_amounts [OF s v n, of ?tf] show ?thesis
    by (simp add: st)
qed

end
